theory Spec2Isabelle
  imports Main "HOL-Library.Word" "HOL-Library.AList"
begin

section \<open>Agent registry: data model\<close>

text \<open>
  Go strings are byte sequences and are modelled as \<open>string\<close>; \<open>int32\<close> and \<open>int64\<close> are
  \<open>32 word\<close> and \<open>64 word\<close>, read as two's complement. A Go string map is an association
  list with one pair for each key: a read is \<open>map_of\<close>, a write is \<open>AList.update\<close>, its
  length is the length of the list, and a range runs over the list (in the order of the
  list, where Go leaves the order open).
  A nil slice and an empty slice are both the empty list: the program only takes their
  length, ranges over them and serialises them under \<open>omitempty\<close>, which do not tell
  them apart. Pointers that the controller never passes as nil (the registry, the agent,
  the card) are modelled by the value they point to; optional pointers are \<open>option\<close>.
\<close>

type_synonym Time = nat

text \<open>\<open>time.Duration\<close>, in nanoseconds.\<close>

type_synonym Duration = int

type_synonym StringMap = "(string \<times> string) list"

datatype error =
    NotFound
  | ContextCanceled
  | Failure string
  | Wrap string error

text \<open>\<open>apierrors.IsNotFound\<close>\<close>

fun IsNotFound :: "error \<Rightarrow> bool" where
  "IsNotFound NotFound = True"
| "IsNotFound (Wrap m e) = IsNotFound e"
| "IsNotFound e = False"

datatype Context = Live | Canceled

subsection \<open>api/v1alpha1: AgentCard\<close>

record AgentEndpoint =
  URL :: string
  Protocol :: string
  Port :: "32 word"

text \<open>\<open>corev1.ObjectReference\<close>, the fields the generator fills.\<close>

record ObjectReference =
  ref_APIVersion :: string
  ref_Kind :: string
  ref_Name :: string
  ref_Namespace :: string
  ref_UID :: string

record AgentCardSpec =
  Name :: string
  Version :: string
  SourceRef :: ObjectReference
  Endpoints :: "AgentEndpoint list"
  Capabilities :: "string list"
  A2AVersion :: string
  Metadata :: StringMap
  PublicCard :: string

text \<open>\<open>metav1.Condition\<close>\<close>

record Condition =
  cond_Type :: string
  cond_Status :: string
  cond_ObservedGeneration :: "64 word"
  cond_LastTransitionTime :: Time
  cond_Reason :: string
  cond_Message :: string

record AgentCardStatus =
  Hash :: string
  LastSeen :: "Time option"
  EndpointHealthy :: "bool option"
  card_Conditions :: "Condition list"
  PublishedRef :: "ObjectReference option"
  card_ObservedGeneration :: "64 word"

text \<open>\<open>metav1.OwnerReference\<close>\<close>

record OwnerReference =
  own_APIVersion :: string
  own_Kind :: string
  own_Name :: string
  own_UID :: string
  own_Controller :: "bool option"

record AgentCard =
  card_APIVersion :: string
  card_Kind :: string
  card_Name :: string
  card_Namespace :: string
  card_OwnerReferences :: "OwnerReference list"
  Spec :: AgentCardSpec
  Status :: AgentCardStatus

definition AgentCardConditionTypeReady :: string where
  "AgentCardConditionTypeReady = ''Ready''"

definition ConditionTrue :: string where
  "ConditionTrue = ''True''"

subsection \<open>api/v1alpha1: AgentRegistry\<close>

text \<open>\<open>metav1.LabelSelector\<close>: its match-labels; the cluster evaluates it.\<close>

type_synonym LabelSelector = "(string \<times> string) list"

record DiscoveryConfig =
  EnableAutoDiscovery :: bool
  NamespaceSelector :: "LabelSelector option"
  SyncInterval :: "Duration option"

record AgentRegistrySpec =
  Discovery :: DiscoveryConfig
  reg_A2AVersion :: string

record AgentRegistryStatus =
  RegisteredAgents :: "32 word"
  Phase :: string
  LastSync :: "Time option"
  reg_Conditions :: "Condition list"
  reg_ObservedGeneration :: "64 word"

record AgentRegistry =
  reg_APIVersion :: string
  reg_Kind :: string
  reg_Name :: string
  reg_Namespace :: string
  reg_UID :: string
  reg_Generation :: "64 word"
  reg_Spec :: AgentRegistrySpec
  reg_Status :: AgentRegistryStatus

definition AgentRegistryConditionTypeReady :: string where
  "AgentRegistryConditionTypeReady = ''Ready''"

definition AgentRegistryConditionTypeDiscovering :: string where
  "AgentRegistryConditionTypeDiscovering = ''Discovering''"

definition AgentRegistryConditionTypeError :: string where
  "AgentRegistryConditionTypeError = ''Error''"

subsection \<open>api/v1alpha2: Agent, and core Services\<close>

text \<open>
  Modelled from the spec: the declaration of \<open>v1alpha2.Agent\<close> is not part of the sources.
  The records hold the attributes of section 3.3 of the specification (name, namespace,
  labels, annotations, and the declarative sub-record with its model configuration, tool
  list and A2A configuration with skills), under the field names by which the generator,
  the controller and their tests read them. \<open>corev1.Service\<close> is the Kubernetes type, with
  the fields the generator reads.
\<close>

record AgentSkill =
  skill_Name :: string

record A2AConfig =
  Skills :: "AgentSkill list"

record TypedLocalReference =
  tlr_Name :: string

record Tool =
  McpServer :: "TypedLocalReference option"
  tool_Agent :: "TypedLocalReference option"

record DeclarativeAgentSpec =
  ModelConfig :: string
  Tools :: "Tool list"
  A2AConfig :: "A2AConfig option"

record AgentSpec =
  Description :: string
  Declarative :: "DeclarativeAgentSpec option"

record Agent =
  agent_APIVersion :: string
  agent_Kind :: string
  agent_Name :: string
  agent_Namespace :: string
  agent_UID :: string
  agent_ResourceVersion :: string
  agent_Generation :: "64 word"
  Labels :: StringMap
  Annotations :: StringMap
  agent_Spec :: AgentSpec

record ServicePort =
  sp_Port :: "32 word"
  sp_Protocol :: string

record Service =
  svc_Name :: string
  svc_Namespace :: string
  Ports :: "ServicePort list"

subsection \<open>Constants of package registry\<close>

text \<open>
  Modelled from the spec: the file declaring the annotation keys, the phase names and
  the field manager of package \<open>registry\<close> is not part of the sources. The values are
  those of section 3.4 of the specification, under the \<open>kagent.dev/\<close> prefix that the
  repository's tests and end-to-end script write out.
\<close>

definition AnnotationRegisterToRegistry :: string where
  "AnnotationRegisterToRegistry = ''kagent.dev/register-to-registry''"

definition AnnotationDiscoveryDisabled :: string where
  "AnnotationDiscoveryDisabled = ''kagent.dev/discovery-disabled''"

definition AnnotationCapabilities :: string where
  "AnnotationCapabilities = ''kagent.dev/capabilities''"

definition AnnotationA2AEndpoint :: string where
  "AnnotationA2AEndpoint = ''kagent.dev/a2a-endpoint''"

definition AnnotationCardMetadataPrefix :: string where
  "AnnotationCardMetadataPrefix = ''kagent.dev/card-''"

definition PhaseNotStarted :: string where
  "PhaseNotStarted = ''NotStarted''"

definition PhaseDiscovering :: string where
  "PhaseDiscovering = ''Discovering''"

definition PhaseReady :: string where
  "PhaseReady = ''Ready''"

definition PhaseError :: string where
  "PhaseError = ''Error''"

section \<open>The Go library, as far as the program uses it\<close>

subsection \<open>The external A2A card type\<close>

text \<open>\<open>server.AgentCard\<close> of trpc-a2a-go, the fields the translator sets.\<close>

record A2ACapabilities =
  Streaming :: "bool option"
  PushNotifications :: "bool option"
  StateTransitionHistory :: "bool option"

record A2ASkill =
  a2a_skill_ID :: string
  a2a_skill_Name :: string
  a2a_skill_Description :: "string option"
  a2a_skill_Tags :: "string list"

record A2AProvider =
  Organization :: string
  prov_URL :: "string option"

record A2ACard =
  a2a_Name :: string
  a2a_Description :: string
  a2a_Version :: string
  a2a_URL :: string
  a2a_Capabilities :: A2ACapabilities
  DefaultInputModes :: "string list"
  DefaultOutputModes :: "string list"
  a2a_Skills :: "A2ASkill list"
  Provider :: "A2AProvider option"
  IconURL :: "string option"
  DocumentationURL :: "string option"
  ProtocolVersion :: "string option"

subsection \<open>JSON object form\<close>

text \<open>
  What \<open>encoding/json\<close> writes for a value is fixed in two steps: the struct tags of
  the type decide which members the object has, and the encoder turns that object into
  bytes. The first step is written out below from the tags in the sources; the second
  is a function of the library. \<open>JStringMap\<close> is the object of a Go string map.
\<close>

datatype json =
    JString string
  | JNumber int
  | JArray "json list"
  | JObject "(string \<times> json) list"
  | JStringMap StringMap

text \<open>
  Library functions whose bodies are outside the repository: the JSON encoder on an
  object form, \<open>json.Marshal\<close> on the external A2A card type, \<open>sha256.Sum256\<close>, and the
  Unicode paths of \<open>strings.ToLower\<close> and \<open>strings.TrimSpace\<close>, which give the result for a
  string with a byte outside ASCII; the error, if any, with which
  \<open>http.NewRequestWithContext\<close> rejects a URL and \<open>metav1.LabelSelectorAsSelector\<close> a
  selector.
\<close>

record Lib =
  json_encode :: "json \<Rightarrow> error + string"
  json_Marshal_a2a :: "A2ACard \<Rightarrow> error + string"
  sha256_Sum256 :: "string \<Rightarrow> string"
  unicode_ToLower :: "string \<Rightarrow> string"
  unicode_TrimSpace :: "string \<Rightarrow> string"
  url_fault :: "string \<Rightarrow> error option"
  selector_fault :: "LabelSelector \<Rightarrow> error option"

subsection \<open>Formatting and strings\<close>

definition digit_char :: "nat \<Rightarrow> char" where
  "digit_char n = ''0123456789abcdef'' ! (n mod 16)"

fun dec_digits :: "nat \<Rightarrow> string" where
  "dec_digits n =
     (if n < 10 then [digit_char n]
      else dec_digits (n div 10) @ [digit_char (n mod 10)])"

declare dec_digits.simps [simp del]

text \<open>\<open>fmt.Sprintf("%d", i)\<close>\<close>

definition Sprintf_d :: "int \<Rightarrow> string" where
  "Sprintf_d i = (if i < 0 then CHR ''-'' # dec_digits (nat (- i)) else dec_digits (nat i))"

text \<open>\<open>fmt.Sprintf("%x", bytes)\<close>: two lower-case hexadecimal digits a byte.\<close>

fun Sprintf_x :: "string \<Rightarrow> string" where
  "Sprintf_x [] = []"
| "Sprintf_x (c # cs) =
     digit_char (of_char c div 16) # digit_char (of_char c mod 16) # Sprintf_x cs"

definition is_ascii :: "char \<Rightarrow> bool" where
  "is_ascii c = ((of_char c :: nat) < 128)"

definition ascii_lower :: "char \<Rightarrow> char" where
  "ascii_lower c =
     (case map_of (zip ''ABCDEFGHIJKLMNOPQRSTUVWXYZ'' ''abcdefghijklmnopqrstuvwxyz'') c of
        Some l \<Rightarrow> l
      | None \<Rightarrow> c)"

text \<open>\<open>strings.ToLower\<close>\<close>

definition strings_ToLower :: "Lib \<Rightarrow> string \<Rightarrow> string" where
  "strings_ToLower lib s =
     (if list_all is_ascii s then map ascii_lower s else unicode_ToLower lib s)"

definition asciiSpace :: "char \<Rightarrow> bool" where
  "asciiSpace c = ((of_char c :: nat) \<in> {9, 10, 11, 12, 13, 32})"

text \<open>\<open>strings.TrimSpace\<close>\<close>

definition strings_TrimSpace :: "Lib \<Rightarrow> string \<Rightarrow> string" where
  "strings_TrimSpace lib s =
     (if list_all is_ascii s then rev (dropWhile asciiSpace (rev (dropWhile asciiSpace s)))
      else unicode_TrimSpace lib s)"

text \<open>\<open>strings.Split(s, ",")\<close>, for a separator of one byte.\<close>

fun strings_Split :: "string \<Rightarrow> char \<Rightarrow> string list" where
  "strings_Split [] sep = [[]]"
| "strings_Split (c # cs) sep =
     (if c = sep then [] # strings_Split cs sep
      else (case strings_Split cs sep of
              [] \<Rightarrow> [[c]]
            | x # xs \<Rightarrow> (c # x) # xs))"

text \<open>\<open>strings.HasPrefix\<close> and \<open>strings.TrimPrefix\<close>\<close>

fun strings_HasPrefix :: "string \<Rightarrow> string \<Rightarrow> bool" where
  "strings_HasPrefix s [] = True"
| "strings_HasPrefix [] (p # ps) = False"
| "strings_HasPrefix (c # cs) (p # ps) = (c = p \<and> strings_HasPrefix cs ps)"

definition strings_TrimPrefix :: "string \<Rightarrow> string \<Rightarrow> string" where
  "strings_TrimPrefix s p = (if strings_HasPrefix s p then drop (length p) s else s)"

text \<open>\<open>strings.Join\<close>\<close>

fun strings_Join :: "string list \<Rightarrow> string \<Rightarrow> string" where
  "strings_Join [] sep = []"
| "strings_Join [x] sep = x"
| "strings_Join (x # y # ys) sep = x @ sep @ strings_Join (y # ys) sep"


text \<open>\<open>err.Error()\<close>\<close>

fun Error_string :: "error \<Rightarrow> string" where
  "Error_string NotFound = ''not found''"
| "Error_string ContextCanceled = ''context canceled''"
| "Error_string (Failure m) = m"
| "Error_string (Wrap m e) = m @ '': '' @ Error_string e"

section \<open>The cluster\<close>

text \<open>
  The cluster API, the network and the clock are the state the program runs against.
  Reads of Services, Agents and Namespaces are given by their results. Cards and
  registries are stores; a read or write of them can fail with an injected error (an
  error of the API, or the error of a context that is done).
  What the API server stores for a server-side apply of a card onto the existing object
  is \<open>apply_merge\<close>. \<open>patches\<close> and \<open>status_updates\<close> record every apply and every status
  write the controller issues, in order. \<open>http_head\<close> is the outcome of a HEAD request to
  a URL under a client timeout: the status code of the reply, or the error.
\<close>

type_synonym NamespacedName = "string \<times> string"

record Cluster =
  registries :: "NamespacedName \<rightharpoonup> AgentRegistry"
  get_registry_fault :: "NamespacedName \<Rightarrow> error option"
  get_service :: "NamespacedName \<Rightarrow> error + Service"
  list_agents :: "string \<Rightarrow> error + Agent list"
  list_namespaces :: "LabelSelector \<Rightarrow> error + string list"
  cards :: "NamespacedName \<rightharpoonup> AgentCard"
  get_card_fault :: "NamespacedName \<Rightarrow> error option"
  patch_fault :: "AgentCard \<Rightarrow> error option"
  apply_merge :: "AgentCard option \<Rightarrow> AgentCard \<Rightarrow> AgentCard"
  patches :: "AgentCard list"
  status_update_fault :: "AgentRegistry \<Rightarrow> error option"
  status_updates :: "AgentRegistry list"
  clock :: Time
  http_head :: "Duration \<Rightarrow> string \<Rightarrow> error + int"

text \<open>\<open>Client.Get\<close> on a card and on a registry.\<close>

definition get_card :: "Cluster \<Rightarrow> NamespacedName \<Rightarrow> error + AgentCard" where
  "get_card w k =
     (case get_card_fault w k of
        Some e \<Rightarrow> Inl e
      | None \<Rightarrow> (case cards w k of None \<Rightarrow> Inl NotFound | Some c \<Rightarrow> Inr c))"

definition get_registry :: "Cluster \<Rightarrow> NamespacedName \<Rightarrow> error + AgentRegistry" where
  "get_registry w k =
     (case get_registry_fault w k of
        Some e \<Rightarrow> Inl e
      | None \<Rightarrow> (case registries w k of None \<Rightarrow> Inl NotFound | Some r \<Rightarrow> Inr r))"

text \<open>\<open>Client.Patch(ctx, card, client.Apply, client.ForceOwnership, client.FieldOwner(...))\<close>\<close>

definition Patch_apply :: "Cluster \<Rightarrow> AgentCard \<Rightarrow> error option \<times> Cluster" where
  "Patch_apply w crd =
     (let k = (card_Namespace crd, card_Name crd);
          w' = w\<lparr>patches := patches w @ [crd]\<rparr>
      in case patch_fault w crd of
           Some e \<Rightarrow> (Some e, w')
         | None \<Rightarrow> (None, w'\<lparr>cards := (cards w)(k \<mapsto> apply_merge w (cards w k) crd)\<rparr>))"

text \<open>\<open>Client.Status().Update(ctx, agentRegistry)\<close>\<close>

definition Status_Update :: "Cluster \<Rightarrow> AgentRegistry \<Rightarrow> error option \<times> Cluster" where
  "Status_Update w r =
     (let k = (reg_Namespace r, reg_Name r);
          w' = w\<lparr>status_updates := status_updates w @ [r]\<rparr>
      in case status_update_fault w r of
           Some e \<Rightarrow> (Some e, w')
         | None \<Rightarrow>
             (case registries w k of
                None \<Rightarrow> (Some NotFound, w')
              | Some stored \<Rightarrow>
                  (None, w'\<lparr>registries :=
                             (registries w)(k \<mapsto> stored\<lparr>reg_Status := reg_Status r\<rparr>)\<rparr>)))"

text \<open>
  \<open>http.Client.Do\<close> on a request that carries the context: a request whose context is
  done fails with the context's error.
\<close>

definition client_Do :: "Cluster \<Rightarrow> Duration \<Rightarrow> Context \<Rightarrow> string \<Rightarrow> error + int" where
  "client_Do w t ctx url = (if ctx = Canceled then Inl ContextCanceled else http_head w t url)"

section \<open>pkg/registry/a2a: the translator\<close>

datatype Translator = NewTranslator

definition a2a_extractDescription :: "AgentCard \<Rightarrow> string" where
  "a2a_extractDescription crd =
     (case map_of (Metadata (Spec crd)) ''description'' of
        Some desc \<Rightarrow> (if desc \<noteq> [] then desc else ''Agent '' @ Name (Spec crd))
      | None \<Rightarrow> ''Agent '' @ Name (Spec crd))"

definition a2a_extractVersion :: "AgentCard \<Rightarrow> string" where
  "a2a_extractVersion crd =
     (if Version (Spec crd) \<noteq> [] then Version (Spec crd) else ''1.0.0'')"

definition extractPrimaryURL :: "AgentCard \<Rightarrow> string" where
  "extractPrimaryURL crd =
     (case Endpoints (Spec crd) of [] \<Rightarrow> [] | e # es \<Rightarrow> URL e)"

definition extractProvider :: "AgentCard \<Rightarrow> A2AProvider option" where
  "extractProvider crd =
     (case map_of (Metadata (Spec crd)) ''provider.organization'' of
        None \<Rightarrow> None
      | Some orgName \<Rightarrow>
          Some \<lparr>Organization = orgName, prov_URL = map_of (Metadata (Spec crd)) ''provider.url''\<rparr>)"

definition extractIconURL :: "AgentCard \<Rightarrow> string" where
  "extractIconURL crd =
     (case map_of (Metadata (Spec crd)) ''iconUrl'' of Some iconURL \<Rightarrow> iconURL | None \<Rightarrow> [])"

definition extractDocURL :: "AgentCard \<Rightarrow> string" where
  "extractDocURL crd =
     (case map_of (Metadata (Spec crd)) ''documentationUrl'' of Some docURL \<Rightarrow> docURL | None \<Rightarrow> [])"

fun skills_from :: "nat \<Rightarrow> string list \<Rightarrow> A2ASkill list" where
  "skills_from i [] = []"
| "skills_from i (cap # caps) =
     \<lparr>a2a_skill_ID = ''skill-'' @ Sprintf_d (int i), a2a_skill_Name = cap,
      a2a_skill_Description = None, a2a_skill_Tags = []\<rparr> # skills_from (Suc i) caps"

definition extractSkills :: "AgentCard \<Rightarrow> A2ASkill list" where
  "extractSkills crd =
     (if length (Capabilities (Spec crd)) = 0
      then [\<lparr>a2a_skill_ID = ''default'', a2a_skill_Name = ''General Purpose'',
             a2a_skill_Description = Some ''General purpose agent'', a2a_skill_Tags = []\<rparr>]
      else skills_from 0 (Capabilities (Spec crd)))"

definition ToA2ACard :: "AgentCard option \<Rightarrow> error + A2ACard" where
  "ToA2ACard c =
     (case c of
        None \<Rightarrow> Inl (Failure ''AgentCard cannot be nil'')
      | Some crd \<Rightarrow>
          Inr \<lparr>a2a_Name = Name (Spec crd),
               a2a_Description = a2a_extractDescription crd,
               a2a_Version = a2a_extractVersion crd,
               a2a_URL = extractPrimaryURL crd,
               a2a_Capabilities =
                 \<lparr>Streaming = Some True, PushNotifications = Some False,
                  StateTransitionHistory = Some False\<rparr>,
               DefaultInputModes = [''text''],
               DefaultOutputModes = [''text''],
               a2a_Skills = extractSkills crd,
               Provider = extractProvider crd,
               IconURL = (if extractIconURL crd \<noteq> [] then Some (extractIconURL crd) else None),
               DocumentationURL =
                 (if extractDocURL crd \<noteq> [] then Some (extractDocURL crd) else None),
               ProtocolVersion =
                 (if A2AVersion (Spec crd) \<noteq> [] then Some (A2AVersion (Spec crd)) else None)\<rparr>)"

definition ToJSON :: "Lib \<Rightarrow> AgentCard option \<Rightarrow> error + string" where
  "ToJSON lib c =
     (case ToA2ACard c of
        Inl err \<Rightarrow> Inl err
      | Inr a2aCard \<Rightarrow>
          (case json_Marshal_a2a lib a2aCard of
             Inl err \<Rightarrow> Inl (Wrap ''failed to marshal A2A card'' err)
           | Inr data \<Rightarrow> Inr data))"

section \<open>internal/controller/registry: the card generator\<close>

record CardGenerator =
  gen_Translator :: "Translator option"

definition extractVersion :: "Agent \<Rightarrow> string" where
  "extractVersion agent =
     (case map_of (Labels agent) ''version'' of
        Some version \<Rightarrow> version
      | None \<Rightarrow>
          (case map_of (Labels agent) ''app.kubernetes.io/version'' of
             Some version \<Rightarrow> version
           | None \<Rightarrow> agent_ResourceVersion agent))"

definition buildSourceRef :: "Agent \<Rightarrow> ObjectReference" where
  "buildSourceRef agent =
     \<lparr>ref_APIVersion = agent_APIVersion agent,
      ref_Kind = agent_Kind agent,
      ref_Name = agent_Name agent,
      ref_Namespace = agent_Namespace agent,
      ref_UID = agent_UID agent\<rparr>"

definition findServiceForAgent :: "Cluster \<Rightarrow> Context \<Rightarrow> Agent \<Rightarrow> error + Service" where
  "findServiceForAgent w ctx agent =
     (case get_service w (agent_Namespace agent, agent_Name agent) of
        Inl err \<Rightarrow> Inl err
      | Inr service \<Rightarrow> Inr service)"

fun service_endpoints :: "Lib \<Rightarrow> Service \<Rightarrow> ServicePort list \<Rightarrow> AgentEndpoint list" where
  "service_endpoints lib service [] = []"
| "service_endpoints lib service (port # ports) =
     \<lparr>URL = ''http://'' @ svc_Name service @ ''.'' @ svc_Namespace service
              @ ''.svc.cluster.local:'' @ Sprintf_d (sint (sp_Port port)),
      Protocol = strings_ToLower lib (sp_Protocol port),
      Port = sp_Port port\<rparr> # service_endpoints lib service ports"

definition extractEndpoints :: "Lib \<Rightarrow> Cluster \<Rightarrow> Context \<Rightarrow> Agent \<Rightarrow> AgentEndpoint list" where
  "extractEndpoints lib w ctx agent =
     (case map_of (Annotations agent) AnnotationA2AEndpoint of
        Some customEndpoint \<Rightarrow> [\<lparr>URL = customEndpoint, Protocol = ''http'', Port = 0\<rparr>]
      | None \<Rightarrow>
          (if (case Declarative (agent_Spec agent) of
                 None \<Rightarrow> False
               | Some d \<Rightarrow> A2AConfig d \<noteq> None)
           then [\<lparr>URL = ''http://kagent-controller.kagent.svc.cluster.local:8083/api/a2a/''
                         @ agent_Namespace agent @ ''/'' @ agent_Name agent,
                   Protocol = ''http'', Port = 8083\<rparr>]
           else (case findServiceForAgent w ctx agent of
                   Inr service \<Rightarrow> service_endpoints lib service (Ports service)
                 | Inl err \<Rightarrow> [])))"

fun skill_names :: "AgentSkill list \<Rightarrow> string list" where
  "skill_names [] = []"
| "skill_names (skill # skills) =
     (if skill_Name skill \<noteq> [] then skill_Name skill # skill_names skills
      else skill_names skills)"

definition extractCapabilities :: "Lib \<Rightarrow> Agent \<Rightarrow> string list" where
  "extractCapabilities lib agent =
     (case map_of (Annotations agent) AnnotationCapabilities of
        Some capStr \<Rightarrow> map (strings_TrimSpace lib) (strings_Split capStr CHR '','')
      | None \<Rightarrow>
          (case Declarative (agent_Spec agent) of
             None \<Rightarrow> []
           | Some d \<Rightarrow>
               (case A2AConfig d of
                  None \<Rightarrow> []
                | Some a \<Rightarrow> (if length (Skills a) > 0 then skill_names (Skills a) else []))))"

fun toolNames :: "Tool list \<Rightarrow> string list" where
  "toolNames [] = []"
| "toolNames (tool # tools) =
     (let fromAgent =
            (case tool_Agent tool of
               None \<Rightarrow> []
             | Some a \<Rightarrow> (if tlr_Name a \<noteq> [] then [tlr_Name a] else []))
      in (case McpServer tool of
            None \<Rightarrow> fromAgent
          | Some m \<Rightarrow> (if tlr_Name m \<noteq> [] then [tlr_Name m] else fromAgent))
         @ toolNames tools)"

fun card_annotations :: "StringMap \<Rightarrow> StringMap \<Rightarrow> StringMap" where
  "card_annotations [] metadata = metadata"
| "card_annotations ((key, v) # annotations) metadata =
     (if strings_HasPrefix key AnnotationCardMetadataPrefix
      then card_annotations annotations
             (AList.update (strings_TrimPrefix key AnnotationCardMetadataPrefix) v metadata)
      else card_annotations annotations metadata)"

definition extractMetadata :: "Agent \<Rightarrow> StringMap" where
  "extractMetadata agent =
     (let m0 = [];
          m1 = (if Description (agent_Spec agent) \<noteq> []
                then AList.update ''description'' (Description (agent_Spec agent)) m0 else m0);
          m2 = (case Declarative (agent_Spec agent) of
                  None \<Rightarrow> m1
                | Some d \<Rightarrow>
                    (let m = (if ModelConfig d \<noteq> []
                              then AList.update ''modelConfig'' (ModelConfig d) m1 else m1)
                     in if length (Tools d) > 0 \<and> length (toolNames (Tools d)) > 0
                        then AList.update ''tools'' (strings_Join (toolNames (Tools d)) '','') m
                        else m))
      in card_annotations (Annotations agent) m2)"

subsection \<open>The serialised spec\<close>

text \<open>
  The object that \<open>json.Marshal\<close> builds for an \<open>AgentCardSpec\<close>: a member tagged
  \<open>omitempty\<close> is left out when it is the empty string, zero, or an empty slice or map.
\<close>

definition AgentEndpoint_json :: "AgentEndpoint \<Rightarrow> json" where
  "AgentEndpoint_json e =
     JObject ([(''url'', JString (URL e))]
       @ (if Protocol e = [] then [] else [(''protocol'', JString (Protocol e))])
       @ (if Port e = 0 then [] else [(''port'', JNumber (sint (Port e)))]))"

definition ObjectReference_json :: "ObjectReference \<Rightarrow> json" where
  "ObjectReference_json r =
     JObject ((if ref_Kind r = [] then [] else [(''kind'', JString (ref_Kind r))])
       @ (if ref_Namespace r = [] then [] else [(''namespace'', JString (ref_Namespace r))])
       @ (if ref_Name r = [] then [] else [(''name'', JString (ref_Name r))])
       @ (if ref_UID r = [] then [] else [(''uid'', JString (ref_UID r))])
       @ (if ref_APIVersion r = [] then [] else [(''apiVersion'', JString (ref_APIVersion r))]))"

definition AgentCardSpec_json :: "AgentCardSpec \<Rightarrow> json" where
  "AgentCardSpec_json s =
     JObject ([(''name'', JString (Name s))]
       @ (if Version s = [] then [] else [(''version'', JString (Version s))])
       @ [(''sourceRef'', ObjectReference_json (SourceRef s))]
       @ (if Endpoints s = [] then []
          else [(''endpoints'', JArray (map AgentEndpoint_json (Endpoints s)))])
       @ (if Capabilities s = [] then []
          else [(''capabilities'', JArray (map JString (Capabilities s)))])
       @ (if A2AVersion s = [] then [] else [(''a2aVersion'', JString (A2AVersion s))])
       @ (if Metadata s = [] then [] else [(''metadata'', JStringMap (Metadata s))])
       @ (if PublicCard s = [] then [] else [(''publicCard'', JString (PublicCard s))]))"

text \<open>The members of a JSON object.\<close>

fun members :: "json \<Rightarrow> string list" where
  "members (JObject kvs) = map fst kvs"
| "members j = []"

definition calculateHash :: "Lib \<Rightarrow> AgentCardSpec \<Rightarrow> string" where
  "calculateHash lib spec =
     (let data = (case json_encode lib (AgentCardSpec_json spec) of
                    Inr d \<Rightarrow> d
                  | Inl err \<Rightarrow> [])
      in Sprintf_x (sha256_Sum256 lib data))"

text \<open>\<open>metav1.Now()\<close> reads the cluster's clock.\<close>

definition GenerateCard ::
  "Lib \<Rightarrow> Cluster \<Rightarrow> CardGenerator \<Rightarrow> Context \<Rightarrow> AgentRegistry \<Rightarrow> Agent \<Rightarrow> error + AgentCard" where
  "GenerateCard lib w g ctx agentRegistry agent =
     (let crd0 =
            \<lparr>card_APIVersion = ''kagent.dev/v1alpha1'',
             card_Kind = ''AgentCard'',
             card_Name = agent_Name agent,
             card_Namespace = agent_Namespace agent,
             card_OwnerReferences = [],
             Spec = \<lparr>Name = agent_Name agent,
                     Version = extractVersion agent,
                     SourceRef = buildSourceRef agent,
                     Endpoints = extractEndpoints lib w ctx agent,
                     Capabilities = extractCapabilities lib agent,
                     A2AVersion = reg_A2AVersion (reg_Spec agentRegistry),
                     Metadata = extractMetadata agent,
                     PublicCard = []\<rparr>,
             Status = \<lparr>Hash = [], LastSeen = None, EndpointHealthy = None,
                       card_Conditions = [], PublishedRef = None,
                       card_ObservedGeneration = 0\<rparr>\<rparr>;
          crd1 =
            (case gen_Translator g of
               None \<Rightarrow> crd0
             | Some t \<Rightarrow>
                 (case ToJSON lib (Some crd0) of
                    Inr publicCard \<Rightarrow> crd0\<lparr>Spec := (Spec crd0)\<lparr>PublicCard := publicCard\<rparr>\<rparr>
                  | Inl err \<Rightarrow> crd0));
          hash = calculateHash lib (Spec crd1);
          now = clock w
      in Inr (crd1\<lparr>Status :=
                \<lparr>Hash = hash,
                 LastSeen = Some now,
                 EndpointHealthy = None,
                 card_Conditions =
                   [\<lparr>cond_Type = AgentCardConditionTypeReady,
                     cond_Status = ConditionTrue,
                     cond_ObservedGeneration = agent_Generation agent,
                     cond_LastTransitionTime = now,
                     cond_Reason = ''Generated'',
                     cond_Message = ''AgentCard generated successfully''\<rparr>],
                 PublishedRef = None,
                 card_ObservedGeneration = agent_Generation agent\<rparr>\<rparr>))"

section \<open>pkg/registry/health: the checker\<close>

record Checker =
  timeout :: Duration

definition checkEndpoint :: "Lib \<Rightarrow> Cluster \<Rightarrow> Checker \<Rightarrow> Context \<Rightarrow> AgentEndpoint \<Rightarrow> error + bool" where
  "checkEndpoint lib w c ctx endpoint =
     (case url_fault lib (URL endpoint) of
        Some err \<Rightarrow> Inl (Wrap ''failed to create request'' err)
      | None \<Rightarrow>
          (case client_Do w (timeout c) ctx (URL endpoint) of
             Inl err \<Rightarrow> Inl (Wrap ''failed to check endpoint'' err)
           | Inr StatusCode \<Rightarrow> Inr (StatusCode \<ge> 200 \<and> StatusCode < 500)))"

fun CheckEndpoints_loop ::
  "Lib \<Rightarrow> Cluster \<Rightarrow> Checker \<Rightarrow> Context \<Rightarrow> AgentEndpoint list \<Rightarrow> bool \<times> error option" where
  "CheckEndpoints_loop lib w c ctx [] = (False, Some (Failure ''all endpoints unhealthy''))"
| "CheckEndpoints_loop lib w c ctx (endpoint # endpoints) =
     (case checkEndpoint lib w c ctx endpoint of
        Inl err \<Rightarrow> CheckEndpoints_loop lib w c ctx endpoints
      | Inr healthy \<Rightarrow>
          (if healthy then (True, None) else CheckEndpoints_loop lib w c ctx endpoints))"

definition CheckEndpoints ::
  "Lib \<Rightarrow> Cluster \<Rightarrow> Checker \<Rightarrow> Context \<Rightarrow> AgentEndpoint list \<Rightarrow> bool \<times> error option" where
  "CheckEndpoints lib w c ctx endpoints =
     (if length endpoints = 0 then (False, Some (Failure ''no endpoints to check''))
      else CheckEndpoints_loop lib w c ctx endpoints)"

section \<open>internal/controller: the registry controller\<close>

record AgentRegistryController =
  HealthChecker :: "Checker option"

record Result =
  RequeueAfter :: Duration

text \<open>A Go map read: the zero value for a missing key.\<close>

definition annotation :: "Agent \<Rightarrow> string \<Rightarrow> string" where
  "annotation agent k = (case map_of (Annotations agent) k of None \<Rightarrow> [] | Some v \<Rightarrow> v)"

fun filterAgentsByAnnotation :: "Agent list \<Rightarrow> Agent list" where
  "filterAgentsByAnnotation [] = []"
| "filterAgentsByAnnotation (agent # agents) =
     (if annotation agent AnnotationRegisterToRegistry = ''true''
      then (if annotation agent AnnotationDiscoveryDisabled \<noteq> ''true''
            then agent # filterAgentsByAnnotation agents
            else filterAgentsByAnnotation agents)
      else filterAgentsByAnnotation agents)"

definition getMatchingNamespaces :: "Lib \<Rightarrow> Cluster \<Rightarrow> LabelSelector \<Rightarrow> error + string list" where
  "getMatchingNamespaces lib w selector =
     (case selector_fault lib selector of
        Some err \<Rightarrow> Inl (Wrap ''invalid label selector'' err)
      | None \<Rightarrow>
          (case list_namespaces w selector of
             Inl err \<Rightarrow> Inl (Wrap ''failed to list namespaces'' err)
           | Inr namespaces \<Rightarrow> Inr namespaces))"

fun agents_of_namespaces :: "Cluster \<Rightarrow> string list \<Rightarrow> Agent list" where
  "agents_of_namespaces w [] = []"
| "agents_of_namespaces w (ns # namespaces) =
     (case list_agents w ns of
        Inl err \<Rightarrow> agents_of_namespaces w namespaces
      | Inr items \<Rightarrow> items @ agents_of_namespaces w namespaces)"

definition discoverAgents :: "Lib \<Rightarrow> Cluster \<Rightarrow> AgentRegistry \<Rightarrow> error + Agent list" where
  "discoverAgents lib w agentRegistry =
     (case NamespaceSelector (Discovery (reg_Spec agentRegistry)) of
        Some selector \<Rightarrow>
          (case getMatchingNamespaces lib w selector of
             Inl err \<Rightarrow> Inl (Wrap ''failed to get matching namespaces'' err)
           | Inr namespaces \<Rightarrow>
               Inr (filterAgentsByAnnotation (agents_of_namespaces w namespaces)))
      | None \<Rightarrow>
          (case list_agents w (reg_Namespace agentRegistry) of
             Inl err \<Rightarrow> Inl (Wrap ''failed to list agents'' err)
           | Inr items \<Rightarrow> Inr (filterAgentsByAnnotation items)))"

text \<open>
  The end of \<open>reconcileAgentCard\<close>, from the health probe on: reached when the card is
  new or its hash differs.
\<close>

definition applyAgentCard ::
  "Lib \<Rightarrow> Cluster \<Rightarrow> AgentRegistryController \<Rightarrow> Context \<Rightarrow> AgentRegistry \<Rightarrow> AgentCard
     \<Rightarrow> error option \<times> Cluster" where
  "applyAgentCard lib w r ctx agentRegistry crd =
     (let crd1 =
            (case HealthChecker r of
               None \<Rightarrow> crd
             | Some checker \<Rightarrow>
                 (if length (Endpoints (Spec crd)) > 0
                  then crd\<lparr>Status := (Status crd)\<lparr>EndpointHealthy :=
                         Some (fst (CheckEndpoints lib w checker ctx (Endpoints (Spec crd))))\<rparr>\<rparr>
                  else crd));
          crd2 = crd1\<lparr>card_OwnerReferences :=
                   [\<lparr>own_APIVersion = reg_APIVersion agentRegistry,
                     own_Kind = reg_Kind agentRegistry,
                     own_Name = reg_Name agentRegistry,
                     own_UID = reg_UID agentRegistry,
                     own_Controller = Some True\<rparr>]\<rparr>
      in case Patch_apply w crd2 of
           (Some err, w') \<Rightarrow> (Some (Wrap ''failed to apply agent card'' err), w')
         | (None, w') \<Rightarrow> (None, w'))"

definition reconcileAgentCard ::
  "Lib \<Rightarrow> Cluster \<Rightarrow> AgentRegistryController \<Rightarrow> Context \<Rightarrow> AgentRegistry \<Rightarrow> Agent
     \<Rightarrow> error option \<times> Cluster" where
  "reconcileAgentCard lib w r ctx agentRegistry agent =
     (case GenerateCard lib w \<lparr>gen_Translator = Some NewTranslator\<rparr> ctx agentRegistry agent of
        Inl err \<Rightarrow> (Some (Wrap ''failed to generate agent card'' err), w)
      | Inr crd \<Rightarrow>
          (case get_card w (card_Namespace crd, card_Name crd) of
             Inr existing \<Rightarrow>
               (if Hash (Status existing) = Hash (Status crd) then (None, w)
                else applyAgentCard lib w r ctx agentRegistry crd)
           | Inl err \<Rightarrow>
               (if IsNotFound err then applyAgentCard lib w r ctx agentRegistry crd
                else (Some (Wrap ''failed to get existing agent card'' err), w))))"

fun upsert_condition :: "Condition \<Rightarrow> Condition list \<Rightarrow> Condition list" where
  "upsert_condition condition [] = [condition]"
| "upsert_condition condition (c # cs) =
     (if cond_Type c = cond_Type condition then condition # cs
      else c # upsert_condition condition cs)"

definition updateStatus ::
  "Cluster \<Rightarrow> AgentRegistry \<Rightarrow> string \<Rightarrow> string \<Rightarrow> 32 word \<Rightarrow> AgentRegistry \<times> Cluster" where
  "updateStatus w agentRegistry phase message registeredAgents =
     (let now = clock w;
          condition0 =
            \<lparr>cond_Type = AgentRegistryConditionTypeReady,
             cond_Status = ConditionTrue,
             cond_ObservedGeneration = reg_Generation agentRegistry,
             cond_LastTransitionTime = now,
             cond_Reason = ''ReconciliationSucceeded'',
             cond_Message = message\<rparr>;
          condition =
            (if phase = PhaseError
             then condition0\<lparr>cond_Type := AgentRegistryConditionTypeError,
                             cond_Status := ConditionTrue,
                             cond_Reason := ''ReconciliationFailed''\<rparr>
             else if phase = PhaseDiscovering
             then condition0\<lparr>cond_Type := AgentRegistryConditionTypeDiscovering,
                             cond_Reason := ''DiscoveringAgents''\<rparr>
             else condition0);
          agentRegistry' =
            agentRegistry\<lparr>reg_Status :=
              \<lparr>RegisteredAgents = registeredAgents,
               Phase = phase,
               LastSync = Some now,
               reg_Conditions =
                 upsert_condition condition (reg_Conditions (reg_Status agentRegistry)),
               reg_ObservedGeneration = reg_Generation agentRegistry\<rparr>\<rparr>
      in (agentRegistry', snd (Status_Update w agentRegistry')))"

text \<open>
  The loop of \<open>reconcileAgentRegistry\<close> over the discovered agents: the count of the
  agents reconciled without error, and the cluster after the last one.
\<close>

fun reconcileAgentCards ::
  "Lib \<Rightarrow> Cluster \<Rightarrow> AgentRegistryController \<Rightarrow> Context \<Rightarrow> AgentRegistry \<Rightarrow> Agent list
     \<Rightarrow> nat \<Rightarrow> nat \<times> Cluster" where
  "reconcileAgentCards lib w r ctx agentRegistry [] registeredCount = (registeredCount, w)"
| "reconcileAgentCards lib w r ctx agentRegistry (agent # agents) registeredCount =
     (case reconcileAgentCard lib w r ctx agentRegistry agent of
        (Some err, w') \<Rightarrow> reconcileAgentCards lib w' r ctx agentRegistry agents registeredCount
      | (None, w') \<Rightarrow>
          reconcileAgentCards lib w' r ctx agentRegistry agents (Suc registeredCount))"

definition reconcileAgentRegistry ::
  "Lib \<Rightarrow> Cluster \<Rightarrow> AgentRegistryController \<Rightarrow> Context \<Rightarrow> AgentRegistry
     \<Rightarrow> error option \<times> AgentRegistry \<times> Cluster" where
  "reconcileAgentRegistry lib w r ctx agentRegistry =
     (if \<not> EnableAutoDiscovery (Discovery (reg_Spec agentRegistry))
      then (case updateStatus w agentRegistry PhaseNotStarted ''Auto-discovery disabled'' 0 of
              (agentRegistry1, w1) \<Rightarrow> (None, agentRegistry1, w1))
      else
        (case updateStatus w agentRegistry PhaseDiscovering ''Discovering agents'' 0 of
           (agentRegistry1, w1) \<Rightarrow>
             (case discoverAgents lib w1 agentRegistry1 of
                Inl err \<Rightarrow> (Some (Wrap ''failed to discover agents'' err), agentRegistry1, w1)
              | Inr agents \<Rightarrow>
                  (case reconcileAgentCards lib w1 r ctx agentRegistry1 agents 0 of
                     (registeredCount, w2) \<Rightarrow>
                       (case updateStatus w2 agentRegistry1 PhaseReady ''Discovery complete''
                               (of_nat registeredCount) of
                          (agentRegistry2, w3) \<Rightarrow> (None, agentRegistry2, w3))))))"

definition Reconcile ::
  "Lib \<Rightarrow> Cluster \<Rightarrow> AgentRegistryController \<Rightarrow> Context \<Rightarrow> NamespacedName
     \<Rightarrow> Result \<times> error option \<times> Cluster" where
  "Reconcile lib w r ctx req =
     (case get_registry w req of
        Inl err \<Rightarrow>
          (if IsNotFound err then (\<lparr>RequeueAfter = 0\<rparr>, None, w)
           else (\<lparr>RequeueAfter = 0\<rparr>, Some err, w))
      | Inr agentRegistry \<Rightarrow>
          (case reconcileAgentRegistry lib w r ctx agentRegistry of
             (Some err, agentRegistry1, w1) \<Rightarrow>
               (\<lparr>RequeueAfter = 0\<rparr>, Some err,
                snd (updateStatus w1 agentRegistry1 PhaseError (Error_string err) 0))
           | (None, agentRegistry1, w1) \<Rightarrow>
               (\<lparr>RequeueAfter =
                   (case SyncInterval (Discovery (reg_Spec agentRegistry1)) of
                      None \<Rightarrow> 300000000000
                    | Some d \<Rightarrow> d)\<rparr>, None, w1)))"

section \<open>Scenarios\<close>

text \<open>
  Concrete inputs for the example runs, after the scenarios of section 8 of the
  specification. The library stand-in is small: the encoder writes the public document
  of the object it is given, the digest is the identity, the translator's marshaller
  writes the name of the A2A card, and nothing faults.
\<close>

fun doc_of :: "json \<Rightarrow> string" where
  "doc_of (JObject kvs) =
     (case map_of kvs ''publicCard'' of Some (JString s) \<Rightarrow> s | Some j \<Rightarrow> [] | None \<Rightarrow> [])"
| "doc_of j = []"

definition S_lib :: Lib where
  "S_lib =
     \<lparr>json_encode = (\<lambda>j. Inr (doc_of j)),
      json_Marshal_a2a = (\<lambda>c. Inr (a2a_Name c)),
      sha256_Sum256 = (\<lambda>d. d),
      unicode_ToLower = (\<lambda>s. s),
      unicode_TrimSpace = (\<lambda>s. s),
      url_fault = (\<lambda>u. None),
      selector_fault = (\<lambda>s. None)\<rparr>"

text \<open>A library whose marshaller of A2A cards fails.\<close>

definition S_lib_failing :: Lib where
  "S_lib_failing = S_lib\<lparr>json_Marshal_a2a := (\<lambda>c. Inl (Failure ''unsupported type''))\<rparr>"

definition S_generator :: CardGenerator where
  "S_generator = \<lparr>gen_Translator = Some NewTranslator\<rparr>"

definition S_controller :: AgentRegistryController where
  "S_controller = \<lparr>HealthChecker = Some \<lparr>timeout = 5000000000\<rparr>\<rparr>"

text \<open>S1: registry \<open>n/r1\<close> with discovery enabled, agent \<open>n/a1\<close> registered, no Service.\<close>

definition S1_registry :: AgentRegistry where
  "S1_registry =
     \<lparr>reg_APIVersion = ''kagent.dev/v1alpha1'', reg_Kind = ''AgentRegistry'',
      reg_Name = ''r1'', reg_Namespace = ''n'', reg_UID = ''uid-r1'', reg_Generation = 1,
      reg_Spec = \<lparr>Discovery = \<lparr>EnableAutoDiscovery = True, NamespaceSelector = None,
                                SyncInterval = None\<rparr>,
                  reg_A2AVersion = ''0.3.0''\<rparr>,
      reg_Status = \<lparr>RegisteredAgents = 0, Phase = [], LastSync = None, reg_Conditions = [],
                    reg_ObservedGeneration = 0\<rparr>\<rparr>"

definition S1_agent :: Agent where
  "S1_agent =
     \<lparr>agent_APIVersion = ''kagent.dev/v1alpha2'', agent_Kind = ''Agent'',
      agent_Name = ''a1'', agent_Namespace = ''n'', agent_UID = ''uid-a1'',
      agent_ResourceVersion = ''7'', agent_Generation = 1,
      Labels = [],
      Annotations = [(AnnotationRegisterToRegistry, ''true'')],
      agent_Spec = \<lparr>Description = ''hello'', Declarative = None\<rparr>\<rparr>"

definition S1_cluster :: Cluster where
  "S1_cluster =
     \<lparr>registries = [(''n'', ''r1'') \<mapsto> S1_registry],
      get_registry_fault = (\<lambda>k. None),
      get_service = (\<lambda>k. Inl NotFound),
      list_agents = (\<lambda>ns. if ns = ''n'' then Inr [S1_agent] else Inr []),
      list_namespaces = (\<lambda>s. Inr []),
      cards = Map.empty,
      get_card_fault = (\<lambda>k. None),
      patch_fault = (\<lambda>c. None),
      apply_merge = (\<lambda>old new. new),
      patches = [],
      status_update_fault = (\<lambda>r. None),
      status_updates = [],
      clock = 1000,
      http_head = (\<lambda>t u. Inl (Failure ''connection refused''))\<rparr>"

text \<open>The same registry with discovery switched off.\<close>

definition S0_registry :: AgentRegistry where
  "S0_registry =
     S1_registry\<lparr>reg_Spec := \<lparr>Discovery = \<lparr>EnableAutoDiscovery = False,
                                               NamespaceSelector = None,
                                               SyncInterval = None\<rparr>,
                                 reg_A2AVersion = ''0.3.0''\<rparr>\<rparr>"

definition S0_cluster :: Cluster where
  "S0_cluster = S1_cluster\<lparr>registries := [(''n'', ''r1'') \<mapsto> S0_registry]\<rparr>"

text \<open>S2: a Service \<open>n/a1\<close> with two ports.\<close>

definition S2_service :: Service where
  "S2_service =
     \<lparr>svc_Name = ''a1'', svc_Namespace = ''n'',
      Ports = [\<lparr>sp_Port = 8080, sp_Protocol = ''TCP''\<rparr>,
               \<lparr>sp_Port = 9090, sp_Protocol = ''TCP''\<rparr>]\<rparr>"

definition S2_cluster :: Cluster where
  "S2_cluster =
     S1_cluster\<lparr>get_service :=
       (\<lambda>k. if k = (''n'', ''a1'') then Inr S2_service else Inl NotFound)\<rparr>"

text \<open>S3: the agent carries the endpoint annotation.\<close>

definition S3_agent :: Agent where
  "S3_agent =
     S1_agent\<lparr>Annotations :=
       [(AnnotationRegisterToRegistry, ''true''),
        (AnnotationA2AEndpoint, ''https://x.example:9000'')]\<rparr>"

definition S3_cluster :: Cluster where
  "S3_cluster = S2_cluster\<lparr>list_agents := (\<lambda>ns. if ns = ''n'' then Inr [S3_agent] else Inr [])\<rparr>"

text \<open>The same cluster as a cancelled context leaves it: an apply fails with its error.\<close>

definition S3_cancelled_cluster :: Cluster where
  "S3_cancelled_cluster = S3_cluster\<lparr>patch_fault := (\<lambda>c. Some ContextCanceled)\<rparr>"

text \<open>An agent that declares an A2A configuration.\<close>

definition S4_agent :: Agent where
  "S4_agent =
     S1_agent\<lparr>agent_Spec :=
       \<lparr>Description = ''hello'',
        Declarative = Some \<lparr>ModelConfig = [], Tools = [],
                            A2AConfig = Some \<lparr>Skills = []\<rparr>\<rparr>\<rparr>\<rparr>"

text \<open>S5: the cluster after a first pass over S1, which has applied the card of \<open>n/a1\<close>.\<close>

definition S5_card :: AgentCard where
  "S5_card =
     \<lparr>card_APIVersion = ''kagent.dev/v1alpha1'', card_Kind = ''AgentCard'',
      card_Name = ''a1'', card_Namespace = ''n'',
      card_OwnerReferences =
        [\<lparr>own_APIVersion = ''kagent.dev/v1alpha1'', own_Kind = ''AgentRegistry'',
          own_Name = ''r1'', own_UID = ''uid-r1'', own_Controller = Some True\<rparr>],
      Spec = \<lparr>Name = ''a1'', Version = ''7'',
              SourceRef = \<lparr>ref_APIVersion = ''kagent.dev/v1alpha2'', ref_Kind = ''Agent'',
                           ref_Name = ''a1'', ref_Namespace = ''n'', ref_UID = ''uid-a1''\<rparr>,
              Endpoints = [], Capabilities = [], A2AVersion = ''0.3.0'',
              Metadata = [(''description'', ''hello'')], PublicCard = ''a1''\<rparr>,
      Status = \<lparr>Hash = ''6131'', LastSeen = Some 1000, EndpointHealthy = None,
                card_Conditions =
                  [\<lparr>cond_Type = ''Ready'', cond_Status = ''True'',
                    cond_ObservedGeneration = 1, cond_LastTransitionTime = 1000,
                    cond_Reason = ''Generated'',
                    cond_Message = ''AgentCard generated successfully''\<rparr>],
                PublishedRef = None, card_ObservedGeneration = 1\<rparr>\<rparr>"

definition S5_cluster :: Cluster where
  "S5_cluster = S1_cluster\<lparr>cards := [(''n'', ''a1'') \<mapsto> S5_card], patches := [S5_card]\<rparr>"

text \<open>S6: in that cluster the agent then carries \<open>discovery-disabled\<close>.\<close>

definition S6_agent :: Agent where
  "S6_agent =
     S1_agent\<lparr>Annotations :=
       [(AnnotationRegisterToRegistry, ''true''),
        (AnnotationDiscoveryDisabled, ''true'')]\<rparr>"

definition S6_cluster :: Cluster where
  "S6_cluster =
     S5_cluster\<lparr>list_agents := (\<lambda>ns. if ns = ''n'' then Inr [S6_agent] else Inr [])\<rparr>"

text \<open>Two endpoints, of which the first does not resolve and the second replies 200.\<close>

definition S8_endpoints :: "AgentEndpoint list" where
  "S8_endpoints =
     [\<lparr>URL = ''http://invalid-host:9999'', Protocol = ''http'', Port = 0\<rparr>,
      \<lparr>URL = ''http://a1.n.svc.cluster.local:8080'', Protocol = ''http'', Port = 8080\<rparr>]"

definition S8_cluster :: Cluster where
  "S8_cluster =
     S1_cluster\<lparr>http_head :=
       (\<lambda>t u. if u = ''http://a1.n.svc.cluster.local:8080'' then Inr 200
              else Inl (Failure ''no such host''))\<rparr>"

section \<open>Properties\<close>

lemmas scenario_defs = S_lib_def S_lib_failing_def S1_registry_def S1_agent_def S1_cluster_def S_generator_def
  S_controller_def S2_service_def S2_cluster_def S3_agent_def S3_cluster_def S3_cancelled_cluster_def
  S4_agent_def S5_card_def
  S5_cluster_def S6_agent_def S6_cluster_def S8_endpoints_def S8_cluster_def
  S0_registry_def S0_cluster_def

lemmas constant_defs = AnnotationRegisterToRegistry_def AnnotationDiscoveryDisabled_def
  AnnotationCapabilities_def AnnotationA2AEndpoint_def AnnotationCardMetadataPrefix_def
  PhaseNotStarted_def PhaseDiscovering_def PhaseReady_def PhaseError_def
  AgentRegistryConditionTypeReady_def AgentRegistryConditionTypeDiscovering_def
  AgentRegistryConditionTypeError_def AgentCardConditionTypeReady_def ConditionTrue_def

lemmas model_defs = Reconcile_def reconcileAgentRegistry_def updateStatus_def Status_Update_def
  get_registry_def discoverAgents_def annotation_def reconcileAgentCard_def applyAgentCard_def
  Patch_apply_def get_card_def CheckEndpoints_def checkEndpoint_def client_Do_def
  GenerateCard_def Let_def extractEndpoints_def findServiceForAgent_def
  extractVersion_def buildSourceRef_def extractCapabilities_def extractMetadata_def
  strings_TrimPrefix_def ToJSON_def ToA2ACard_def calculateHash_def AgentCardSpec_json_def
  a2a_extractDescription_def a2a_extractVersion_def extractPrimaryURL_def extractProvider_def
  extractIconURL_def extractDocURL_def extractSkills_def digit_char_def

lemma ToJSON_spec_only:
  assumes "Name (Spec c) = Name (Spec c')" "Version (Spec c) = Version (Spec c')"
    "Endpoints (Spec c) = Endpoints (Spec c')" "Capabilities (Spec c) = Capabilities (Spec c')"
    "A2AVersion (Spec c) = A2AVersion (Spec c')" "Metadata (Spec c) = Metadata (Spec c')"
  shows "ToJSON lib (Some c) = ToJSON lib (Some c')"
proof -
  have "a2a_extractDescription c = a2a_extractDescription c'"
    unfolding a2a_extractDescription_def assms ..
  moreover have "a2a_extractVersion c = a2a_extractVersion c'"
    unfolding a2a_extractVersion_def assms ..
  moreover have "extractPrimaryURL c = extractPrimaryURL c'"
    unfolding extractPrimaryURL_def assms ..
  moreover have "extractSkills c = extractSkills c'"
    unfolding extractSkills_def assms ..
  moreover have "extractProvider c = extractProvider c'"
    unfolding extractProvider_def assms ..
  moreover have "extractIconURL c = extractIconURL c'"
    unfolding extractIconURL_def assms ..
  moreover have "extractDocURL c = extractDocURL c'"
    unfolding extractDocURL_def assms ..
  ultimately have "ToA2ACard (Some c) = ToA2ACard (Some c')"
    unfolding ToA2ACard_def option.case assms by (simp only:)
  then show ?thesis
    unfolding ToJSON_def by (simp only:)
qed

lemma GenerateCard_Inr: "\<exists>crd. GenerateCard lib w g ctx agentRegistry agent = Inr crd"
  by (simp add: GenerateCard_def Let_def)

lemma GenerateCard_Endpoints:
  "GenerateCard lib w g ctx agentRegistry agent = Inr crd \<Longrightarrow>
   Endpoints (Spec crd) = extractEndpoints lib w ctx agent"
  by (auto simp: GenerateCard_def Let_def split: option.splits sum.splits)

lemma service_endpoints_map:
  "service_endpoints lib service ports =
     map (\<lambda>port. \<lparr>URL = ''http://'' @ svc_Name service @ ''.'' @ svc_Namespace service
                        @ ''.svc.cluster.local:'' @ Sprintf_d (sint (sp_Port port)),
                    Protocol = strings_ToLower lib (sp_Protocol port),
                    Port = sp_Port port\<rparr>) ports"
  by (induction ports) simp_all

text \<open>
  C4. The endpoints of the derived card follow the first-match precedence. With the
  \<open>a2a-endpoint\<close> annotation the list is that URL alone, with protocol \<open>http\<close> and port 0,
  whatever Service exists. Otherwise, for an agent that declares an A2A configuration, it
  is the one in-cluster endpoint of the controller. Otherwise, when the Service of the
  agent's name and namespace is found, it is one endpoint for each Service port, in the
  order of the ports, with the lower-cased protocol and the number of the port.
\<close>

theorem endpoint_precedence:
  assumes "GenerateCard lib w g ctx agentRegistry agent = Inr crd"
  shows "(map_of (Annotations agent) AnnotationA2AEndpoint = Some url \<longrightarrow>
            Endpoints (Spec crd) = [\<lparr>URL = url, Protocol = ''http'', Port = 0\<rparr>])
       \<and> (map_of (Annotations agent) AnnotationA2AEndpoint = None \<and>
            Declarative (agent_Spec agent) = Some d \<and> A2AConfig d = Some a \<longrightarrow>
            Endpoints (Spec crd) =
              [\<lparr>URL = ''http://kagent-controller.kagent.svc.cluster.local:8083/api/a2a/''
                        @ agent_Namespace agent @ ''/'' @ agent_Name agent,
                Protocol = ''http'', Port = 8083\<rparr>])
       \<and> (map_of (Annotations agent) AnnotationA2AEndpoint = None \<and>
            (Declarative (agent_Spec agent) = None \<or>
             (Declarative (agent_Spec agent) = Some d \<and> A2AConfig d = None)) \<and>
            get_service w (agent_Namespace agent, agent_Name agent) = Inr service \<longrightarrow>
            Endpoints (Spec crd) =
              map (\<lambda>port. \<lparr>URL = ''http://'' @ svc_Name service @ ''.'' @ svc_Namespace service
                                 @ ''.svc.cluster.local:'' @ Sprintf_d (sint (sp_Port port)),
                             Protocol = strings_ToLower lib (sp_Protocol port),
                             Port = sp_Port port\<rparr>) (Ports service))"
  using assms
  by (auto simp: GenerateCard_Endpoints extractEndpoints_def findServiceForAgent_def
      service_endpoints_map)


lemmas eval_defs = Sprintf_d_def dec_digits.simps digit_char_def strings_ToLower_def is_ascii_def
  ascii_lower_def

theorem endpoint_precedence_witness:
  "(map_of (Annotations S3_agent) AnnotationA2AEndpoint = Some ''https://x.example:9000''
      \<and> get_service S3_cluster (agent_Namespace S3_agent, agent_Name S3_agent) = Inr S2_service
      \<and> Endpoints (Spec (projr (GenerateCard S_lib S3_cluster S_generator Live S1_registry S3_agent)))
          = [\<lparr>URL = ''https://x.example:9000'', Protocol = ''http'', Port = 0\<rparr>])
   \<and> (map_of (Annotations S4_agent) AnnotationA2AEndpoint = None
      \<and> Declarative (agent_Spec S4_agent)
          = Some \<lparr>ModelConfig = [], Tools = [], A2AConfig = Some \<lparr>Skills = []\<rparr>\<rparr>
      \<and> Endpoints (Spec (projr (GenerateCard S_lib S2_cluster S_generator Live S1_registry S4_agent)))
          = [\<lparr>URL = ''http://kagent-controller.kagent.svc.cluster.local:8083/api/a2a/n/a1'',
              Protocol = ''http'', Port = 8083\<rparr>])
   \<and> (map_of (Annotations S1_agent) AnnotationA2AEndpoint = None
      \<and> Declarative (agent_Spec S1_agent) = None
      \<and> get_service S2_cluster (agent_Namespace S1_agent, agent_Name S1_agent) = Inr S2_service
      \<and> Endpoints (Spec (projr (GenerateCard S_lib S2_cluster S_generator Live S1_registry S1_agent)))
          = [\<lparr>URL = ''http://a1.n.svc.cluster.local:8080'', Protocol = ''tcp'', Port = 8080\<rparr>,
             \<lparr>URL = ''http://a1.n.svc.cluster.local:9090'', Protocol = ''tcp'', Port = 9090\<rparr>])"
proof -
  obtain c3 where g3: "GenerateCard S_lib S3_cluster S_generator Live S1_registry S3_agent = Inr c3"
    using GenerateCard_Inr by blast
  obtain c4 where g4: "GenerateCard S_lib S2_cluster S_generator Live S1_registry S4_agent = Inr c4"
    using GenerateCard_Inr by blast
  obtain c2 where g2: "GenerateCard S_lib S2_cluster S_generator Live S1_registry S1_agent = Inr c2"
    using GenerateCard_Inr by blast
  have h3: "map_of (Annotations S3_agent) AnnotationA2AEndpoint = Some ''https://x.example:9000''"
    by (simp add: S3_agent_def S1_agent_def constant_defs)
  have s3: "get_service S3_cluster (agent_Namespace S3_agent, agent_Name S3_agent) = Inr S2_service"
    by (simp add: S3_cluster_def S2_cluster_def S1_cluster_def S3_agent_def S1_agent_def)
  have h4: "map_of (Annotations S4_agent) AnnotationA2AEndpoint = None"
    by (simp add: S4_agent_def S1_agent_def constant_defs)
  have d4: "Declarative (agent_Spec S4_agent)
          = Some \<lparr>ModelConfig = [], Tools = [], A2AConfig = Some \<lparr>Skills = []\<rparr>\<rparr>"
    by (simp add: S4_agent_def)
  have h2: "map_of (Annotations S1_agent) AnnotationA2AEndpoint = None"
    by (simp add: S1_agent_def constant_defs)
  have d2: "Declarative (agent_Spec S1_agent) = None"
    by (simp add: S1_agent_def)
  have s2: "get_service S2_cluster (agent_Namespace S1_agent, agent_Name S1_agent) = Inr S2_service"
    by (simp add: S2_cluster_def S1_cluster_def S1_agent_def)
  have e3: "Endpoints (Spec c3) = [\<lparr>URL = ''https://x.example:9000'', Protocol = ''http'', Port = 0\<rparr>]"
    using endpoint_precedence [OF g3] h3 by blast
  have e4: "Endpoints (Spec c4)
      = [\<lparr>URL = ''http://kagent-controller.kagent.svc.cluster.local:8083/api/a2a/n/a1'',
          Protocol = ''http'', Port = 8083\<rparr>]"
    using endpoint_precedence [OF g4, of _ "\<lparr>ModelConfig = [], Tools = [], A2AConfig = Some \<lparr>Skills = []\<rparr>\<rparr>" "\<lparr>Skills = []\<rparr>"] h4 d4
    by (simp add: S4_agent_def S1_agent_def)
  have e2: "Endpoints (Spec c2)
      = [\<lparr>URL = ''http://a1.n.svc.cluster.local:8080'', Protocol = ''tcp'', Port = 8080\<rparr>,
         \<lparr>URL = ''http://a1.n.svc.cluster.local:9090'', Protocol = ''tcp'', Port = 9090\<rparr>]"
    using endpoint_precedence [OF g2, of _ _ _ S2_service] h2 d2 s2
    by (simp add: S2_service_def S_lib_def eval_defs)
  show ?thesis
    using h3 s3 e3 h4 d4 e4 h2 d2 s2 e2 by (simp add: g3 g4 g2)
qed

text \<open>
  C5, as amended. When no rule matches (no annotation, no A2A configuration, and the
  lookup of the Service fails), a card is still produced and its endpoints are the empty
  list; in the serialised spec the \<open>endpoints\<close> member is left out, as its \<open>omitempty\<close>
  tag says.
\<close>

theorem no_endpoint_card:
  assumes "map_of (Annotations agent) AnnotationA2AEndpoint = None"
    and "Declarative (agent_Spec agent) = None
         \<or> (\<exists>d. Declarative (agent_Spec agent) = Some d \<and> A2AConfig d = None)"
    and "get_service w (agent_Namespace agent, agent_Name agent) = Inl err"
  shows "\<exists>crd. GenerateCard lib w g ctx agentRegistry agent = Inr crd
           \<and> Endpoints (Spec crd) = []
           \<and> ''endpoints'' \<notin> set (members (AgentCardSpec_json (Spec crd)))"
proof -
  obtain crd where g: "GenerateCard lib w g ctx agentRegistry agent = Inr crd"
    using GenerateCard_Inr by blast
  have e: "Endpoints (Spec crd) = []"
    using assms by (auto simp: GenerateCard_Endpoints [OF g] extractEndpoints_def findServiceForAgent_def)
  have "''endpoints'' \<notin> set (members (AgentCardSpec_json (Spec crd)))"
    by (simp add: AgentCardSpec_json_def e)
  with g e show ?thesis by blast
qed

theorem no_endpoint_card_witness:
  "map_of (Annotations S1_agent) AnnotationA2AEndpoint = None
   \<and> Declarative (agent_Spec S1_agent) = None
   \<and> get_service S1_cluster (agent_Namespace S1_agent, agent_Name S1_agent) = Inl NotFound
   \<and> (\<exists>crd. GenerateCard S_lib S1_cluster S_generator Live S1_registry S1_agent = Inr crd
           \<and> Endpoints (Spec crd) = []
           \<and> ''endpoints'' \<notin> set (members (AgentCardSpec_json (Spec crd))))"
proof -
  have h: "map_of (Annotations S1_agent) AnnotationA2AEndpoint = None"
    by (simp add: S1_agent_def constant_defs)
  have d: "Declarative (agent_Spec S1_agent) = None"
    by (simp add: S1_agent_def)
  have s: "get_service S1_cluster (agent_Namespace S1_agent, agent_Name S1_agent) = Inl NotFound"
    by (simp add: S1_cluster_def)
  show ?thesis
    using no_endpoint_card [OF h _ s, of S_lib S_generator Live S1_registry] h d s by simp
qed

text \<open>
  In scenario S1 no rule matches, and the serialised spec has no \<open>endpoints\<close> member: the
  member is not present as an empty list.
\<close>

theorem endpoints_member_counterexample:
  "map_of (Annotations S1_agent) AnnotationA2AEndpoint = None
   \<and> Declarative (agent_Spec S1_agent) = None
   \<and> get_service S1_cluster (agent_Namespace S1_agent, agent_Name S1_agent) = Inl NotFound
   \<and> members (AgentCardSpec_json
        (Spec (projr (GenerateCard S_lib S1_cluster S_generator Live S1_registry S1_agent))))
      = [''name'', ''version'', ''sourceRef'', ''a2aVersion'', ''metadata'', ''publicCard'']"
  by (simp add: GenerateCard_def Let_def scenario_defs constant_defs extractEndpoints_def
      findServiceForAgent_def extractVersion_def buildSourceRef_def extractCapabilities_def
      extractMetadata_def strings_TrimPrefix_def ToJSON_def ToA2ACard_def AgentCardSpec_json_def)

lemma GenerateCard_ToJSON:
  assumes "GenerateCard lib w g ctx agentRegistry agent = Inr crd"
  shows "ToJSON lib (Some crd) =
         ToJSON lib (Some \<lparr>card_APIVersion = ''kagent.dev/v1alpha1'',
             card_Kind = ''AgentCard'',
             card_Name = agent_Name agent,
             card_Namespace = agent_Namespace agent,
             card_OwnerReferences = [],
             Spec = \<lparr>Name = agent_Name agent,
                     Version = extractVersion agent,
                     SourceRef = buildSourceRef agent,
                     Endpoints = extractEndpoints lib w ctx agent,
                     Capabilities = extractCapabilities lib agent,
                     A2AVersion = reg_A2AVersion (reg_Spec agentRegistry),
                     Metadata = extractMetadata agent,
                     PublicCard = []\<rparr>,
             Status = \<lparr>Hash = [], LastSeen = None, EndpointHealthy = None,
                       card_Conditions = [], PublishedRef = None,
                       card_ObservedGeneration = 0\<rparr>\<rparr>)"
  using assms
  by (intro ToJSON_spec_only) (auto simp: GenerateCard_def Let_def split: option.splits sum.splits)

text \<open>
  C10. \<open>GenerateCard\<close> never returns an error: for every input it returns a card. Where
  there is no translator, or the translation of the card fails, the failure is not
  reported and the public document of the card is empty.
\<close>

theorem GenerateCard_no_error:
  "\<exists>crd. GenerateCard lib w g ctx agentRegistry agent = Inr crd
         \<and> (gen_Translator g = None \<or> (\<exists>err. ToJSON lib (Some crd) = Inl err)
              \<longrightarrow> PublicCard (Spec crd) = [])"
proof -
  obtain crd where g: "GenerateCard lib w g ctx agentRegistry agent = Inr crd"
    using GenerateCard_Inr by blast
  have "PublicCard (Spec crd) = []" if "gen_Translator g = None"
    using g that by (auto simp: GenerateCard_def Let_def)
  moreover have "PublicCard (Spec crd) = []" if "ToJSON lib (Some crd) = Inl err" for err
    using g that unfolding GenerateCard_ToJSON [OF g]
    by (auto simp: GenerateCard_def Let_def split: option.splits)
  ultimately show ?thesis using g by auto
qed

theorem GenerateCard_no_error_witness:
  "ToJSON S_lib_failing
     (Some (projr (GenerateCard S_lib_failing S1_cluster S_generator Live S1_registry S1_agent)))
     = Inl (Wrap ''failed to marshal A2A card'' (Failure ''unsupported type''))
   \<and> GenerateCard S_lib_failing S1_cluster S_generator Live S1_registry S1_agent
     = Inr (projr (GenerateCard S_lib_failing S1_cluster S_generator Live S1_registry S1_agent))
   \<and> PublicCard (Spec (projr
       (GenerateCard S_lib_failing S1_cluster S_generator Live S1_registry S1_agent))) = []"
proof -
  obtain crd where g: "GenerateCard S_lib_failing S1_cluster S_generator Live S1_registry S1_agent = Inr crd"
    and p: "gen_Translator S_generator = None \<or> (\<exists>err. ToJSON S_lib_failing (Some crd) = Inl err)
              \<longrightarrow> PublicCard (Spec crd) = []"
    using GenerateCard_no_error [of S_lib_failing S1_cluster S_generator Live S1_registry S1_agent]
    by blast
  have t: "ToJSON S_lib_failing (Some crd)
     = Inl (Wrap ''failed to marshal A2A card'' (Failure ''unsupported type''))"
    by (simp add: ToJSON_def ToA2ACard_def S_lib_failing_def S_lib_def)
  from p t have "PublicCard (Spec crd) = []" by simp
  with g t show ?thesis by simp
qed

lemma GenerateCard_Hash:
  "GenerateCard lib w g ctx agentRegistry agent = Inr crd \<Longrightarrow>
   Hash (Status crd) = calculateHash lib (Spec crd)"
  by (auto simp: GenerateCard_def Let_def split: option.splits sum.splits)

lemma GenerateCard_PublicCard:
  assumes "GenerateCard lib w g ctx agentRegistry agent = Inr crd"
    and "gen_Translator g = Some t" and "ToJSON lib (Some crd) = Inr doc"
  shows "PublicCard (Spec crd) = doc"
  using assms(1,2) assms(3) [unfolded GenerateCard_ToJSON [OF assms(1)]]
  by (auto simp: GenerateCard_def Let_def)

lemma digit_char_inj: "a < 16 \<Longrightarrow> b < 16 \<Longrightarrow> digit_char a = digit_char b \<Longrightarrow> a = b"
proof -
  assume a: "a < 16" and b: "b < 16" and e: "digit_char a = digit_char b"
  have d: "distinct ''0123456789abcdef''" by simp
  have "''0123456789abcdef'' ! a = ''0123456789abcdef'' ! b"
    using e a b by (simp add: digit_char_def)
  then show "a = b"
    using a b d nth_eq_iff_index_eq [OF d, of a b] by simp
qed

lemma Sprintf_x_inj: "Sprintf_x xs = Sprintf_x ys \<Longrightarrow> xs = ys"
proof (induction xs arbitrary: ys)
  case Nil
  then show ?case by (cases ys) simp_all
next
  case (Cons x xs)
  then obtain y ys' where ys: "ys = y # ys'" by (cases ys) auto
  from Cons.prems ys have
    h: "digit_char (of_char x div 16) = digit_char (of_char y div 16)"
    and l: "digit_char (of_char x mod 16) = digit_char (of_char y mod 16)"
    and r: "Sprintf_x xs = Sprintf_x ys'" by simp_all
  have bx: "(of_char x :: nat) < 256" and bt: "(of_char y :: nat) < 256"
    by (simp_all add: of_char_def)
  have "(of_char x :: nat) div 16 < 16" and "(of_char y :: nat) div 16 < 16"
    using bx bt by arith+
  then have "(of_char x :: nat) div 16 = of_char y div 16"
    using digit_char_inj [OF _ _ h] by blast
  moreover have "(of_char x :: nat) mod 16 = of_char y mod 16"
    by (rule digit_char_inj [OF _ _ l]) simp_all
  ultimately have "(of_char x :: nat) = of_char y"
    by (metis div_mult_mod_eq)
  then have "x = y" by simp
  with Cons.IH [OF r] ys show ?case by simp
qed

lemma doc_of_spec: "doc_of (AgentCardSpec_json s) = PublicCard s"
  by (simp add: AgentCardSpec_json_def map_of_append split: option.splits)

text \<open>
  C6. The hash in the status of a derived card is the hexadecimal form of the SHA-256
  digest of the serialised spec, and that spec already holds the public document the
  translator returned. A change of the translator's output alone changes the document, and
  with it the object that is serialised; the two hashes then agree exactly when SHA-256
  gives the two serialisations the same digest. So the hash changes with the document
  unless the library's encoder writes the two different objects to the same bytes or
  SHA-256 collides on them.
\<close>

theorem hash_of_spec:
  assumes "GenerateCard lib w g ctx agentRegistry agent = Inr crd"
  shows "(json_encode lib (AgentCardSpec_json (Spec crd)) = Inr data
            \<longrightarrow> Hash (Status crd) = Sprintf_x (sha256_Sum256 lib data))
       \<and> (gen_Translator g = Some t \<and> ToJSON lib (Some crd) = Inr doc
            \<longrightarrow> PublicCard (Spec crd) = doc)
       \<and> (GenerateCard (lib\<lparr>json_Marshal_a2a := m\<rparr>) w g ctx agentRegistry agent = Inr crd'
            \<longrightarrow>
            (PublicCard (Spec crd') \<noteq> PublicCard (Spec crd)
               \<longrightarrow> AgentCardSpec_json (Spec crd') \<noteq> AgentCardSpec_json (Spec crd))
            \<and> (json_encode lib (AgentCardSpec_json (Spec crd)) = Inr data
                 \<and> json_encode lib (AgentCardSpec_json (Spec crd')) = Inr data'
               \<longrightarrow> (Hash (Status crd') = Hash (Status crd))
                     = (sha256_Sum256 lib data' = sha256_Sum256 lib data))
            \<and> (PublicCard (Spec crd') \<noteq> PublicCard (Spec crd)
                 \<and> json_encode lib (AgentCardSpec_json (Spec crd)) = Inr data
                 \<and> json_encode lib (AgentCardSpec_json (Spec crd')) = Inr data'
                 \<and> (data' = data
                      \<longrightarrow> AgentCardSpec_json (Spec crd') = AgentCardSpec_json (Spec crd))
                 \<and> (sha256_Sum256 lib data' = sha256_Sum256 lib data \<longrightarrow> data' = data)
               \<longrightarrow> Hash (Status crd') \<noteq> Hash (Status crd)))"
proof -
  have 1: "json_encode lib (AgentCardSpec_json (Spec crd)) = Inr data
            \<longrightarrow> Hash (Status crd) = Sprintf_x (sha256_Sum256 lib data)"
    by (simp add: GenerateCard_Hash [OF assms] calculateHash_def)
  have 2: "gen_Translator g = Some t \<and> ToJSON lib (Some crd) = Inr doc
            \<longrightarrow> PublicCard (Spec crd) = doc"
    using GenerateCard_PublicCard [OF assms] by blast
  have a: "AgentCardSpec_json (Spec crd') \<noteq> AgentCardSpec_json (Spec crd)"
    if "PublicCard (Spec crd') \<noteq> PublicCard (Spec crd)"
    using that doc_of_spec [of "Spec crd'"] doc_of_spec [of "Spec crd"] by auto
  have b: "(Hash (Status crd') = Hash (Status crd))
             = (sha256_Sum256 lib data' = sha256_Sum256 lib data)"
    if g': "GenerateCard (lib\<lparr>json_Marshal_a2a := m\<rparr>) w g ctx agentRegistry agent = Inr crd'"
      and e: "json_encode lib (AgentCardSpec_json (Spec crd)) = Inr data"
      and e': "json_encode lib (AgentCardSpec_json (Spec crd')) = Inr data'"
  proof -
    have "Hash (Status crd) = Sprintf_x (sha256_Sum256 lib data)"
      using 1 e by simp
    moreover have "Hash (Status crd') = Sprintf_x (sha256_Sum256 lib data')"
      using e' by (simp add: GenerateCard_Hash [OF g'] calculateHash_def)
    ultimately show ?thesis
      using Sprintf_x_inj by auto
  qed
  have c: "Hash (Status crd') \<noteq> Hash (Status crd)"
    if "GenerateCard (lib\<lparr>json_Marshal_a2a := m\<rparr>) w g ctx agentRegistry agent = Inr crd'"
      and "PublicCard (Spec crd') \<noteq> PublicCard (Spec crd)"
      and "json_encode lib (AgentCardSpec_json (Spec crd)) = Inr data"
      and "json_encode lib (AgentCardSpec_json (Spec crd')) = Inr data'"
      and "data' = data \<longrightarrow> AgentCardSpec_json (Spec crd') = AgentCardSpec_json (Spec crd)"
      and "sha256_Sum256 lib data' = sha256_Sum256 lib data \<longrightarrow> data' = data"
    using a [OF that(2)] b [OF that(1,3,4)] that(5,6) by blast
  show ?thesis
    using 1 2 a b c by blast
qed

theorem hash_of_spec_witness:
  "json_encode S_lib (AgentCardSpec_json (Spec (projr
       (GenerateCard S_lib S1_cluster S_generator Live S1_registry S1_agent)))) = Inr ''a1''
   \<and> Hash (Status (projr (GenerateCard S_lib S1_cluster S_generator Live S1_registry S1_agent)))
       = Sprintf_x (sha256_Sum256 S_lib ''a1'')
   \<and> gen_Translator S_generator = Some NewTranslator
   \<and> ToJSON S_lib (Some (projr
       (GenerateCard S_lib S1_cluster S_generator Live S1_registry S1_agent))) = Inr ''a1''
   \<and> PublicCard (Spec (projr
       (GenerateCard S_lib S1_cluster S_generator Live S1_registry S1_agent))) = ''a1''
   \<and> PublicCard (Spec (projr
       (GenerateCard (S_lib\<lparr>json_Marshal_a2a := (\<lambda>c. Inr ''drift'')\<rparr>) S1_cluster S_generator Live
          S1_registry S1_agent))) = ''drift''
   \<and> json_encode S_lib (AgentCardSpec_json (Spec (projr
       (GenerateCard (S_lib\<lparr>json_Marshal_a2a := (\<lambda>c. Inr ''drift'')\<rparr>) S1_cluster S_generator Live
          S1_registry S1_agent)))) = Inr ''drift''
   \<and> sha256_Sum256 S_lib ''drift'' \<noteq> sha256_Sum256 S_lib ''a1''
   \<and> AgentCardSpec_json (Spec (projr
       (GenerateCard (S_lib\<lparr>json_Marshal_a2a := (\<lambda>c. Inr ''drift'')\<rparr>) S1_cluster S_generator Live
          S1_registry S1_agent)))
     \<noteq> AgentCardSpec_json (Spec (projr
       (GenerateCard S_lib S1_cluster S_generator Live S1_registry S1_agent)))
   \<and> Hash (Status (projr
       (GenerateCard (S_lib\<lparr>json_Marshal_a2a := (\<lambda>c. Inr ''drift'')\<rparr>) S1_cluster S_generator Live
          S1_registry S1_agent)))
     \<noteq> Hash (Status (projr (GenerateCard S_lib S1_cluster S_generator Live S1_registry S1_agent)))"
proof -
  obtain c where g: "GenerateCard S_lib S1_cluster S_generator Live S1_registry S1_agent = Inr c"
    using GenerateCard_Inr by blast
  obtain c' where g': "GenerateCard (S_lib\<lparr>json_Marshal_a2a := (\<lambda>c. Inr ''drift'')\<rparr>) S1_cluster
      S_generator Live S1_registry S1_agent = Inr c'"
    using GenerateCard_Inr by blast
  have t: "gen_Translator S_generator = Some NewTranslator"
    by (simp add: S_generator_def)
  have j: "ToJSON S_lib (Some c) = Inr ''a1''"
    unfolding GenerateCard_ToJSON [OF g]
    by (simp add: ToJSON_def ToA2ACard_def S_lib_def S1_agent_def)
  have j': "ToJSON (S_lib\<lparr>json_Marshal_a2a := (\<lambda>c. Inr ''drift'')\<rparr>) (Some c') = Inr ''drift''"
    unfolding GenerateCard_ToJSON [OF g']
    by (simp add: ToJSON_def ToA2ACard_def)
  have p': "PublicCard (Spec c') = ''drift''"
    by (rule GenerateCard_PublicCard [OF g' t j'])
  note h = hash_of_spec [OF g, of "''a1''" NewTranslator "''a1''" "\<lambda>c. Inr ''drift''" c' "''drift''"]
  have p: "PublicCard (Spec c) = ''a1''"
    by (rule mp [OF conjunct1 [OF conjunct2 [OF h]]]) (intro conjI t j)
  have e: "json_encode S_lib (AgentCardSpec_json (Spec c)) = Inr ''a1''"
    by (simp add: S_lib_def doc_of_spec p)
  have e': "json_encode S_lib (AgentCardSpec_json (Spec c')) = Inr ''drift''"
    by (simp add: S_lib_def doc_of_spec p')
  have hc: "Hash (Status c) = Sprintf_x (sha256_Sum256 S_lib ''a1'')"
    by (rule mp [OF conjunct1 [OF h] e])
  have n: "PublicCard (Spec c') \<noteq> PublicCard (Spec c)"
    by (simp add: p p')
  have sd: "sha256_Sum256 S_lib ''drift'' \<noteq> sha256_Sum256 S_lib ''a1''"
    by (simp add: S_lib_def)
  note h3 = mp [OF conjunct2 [OF conjunct2 [OF h]] g']
  have jd: "AgentCardSpec_json (Spec c') \<noteq> AgentCardSpec_json (Spec c)"
    by (rule mp [OF conjunct1 [OF h3] n])
  have i1: "''drift'' = ''a1'' \<longrightarrow> AgentCardSpec_json (Spec c') = AgentCardSpec_json (Spec c)"
    by simp
  have i2: "sha256_Sum256 S_lib ''drift'' = sha256_Sum256 S_lib ''a1'' \<longrightarrow> ''drift'' = ''a1''"
    using sd by simp
  have d: "Hash (Status c') \<noteq> Hash (Status c)"
    by (rule mp [OF conjunct2 [OF conjunct2 [OF h3]]]) (intro conjI n e e' i1 i2)
  have pc: "projr (GenerateCard S_lib S1_cluster S_generator Live S1_registry S1_agent) = c"
    by (simp add: g)
  have pc': "projr (GenerateCard (S_lib\<lparr>json_Marshal_a2a := (\<lambda>c. Inr ''drift'')\<rparr>) S1_cluster
      S_generator Live S1_registry S1_agent) = c'"
    by (simp add: g')
  show ?thesis
    unfolding pc pc' by (intro conjI e hc t j p p' e' sd jd d)
qed

text \<open>
  C9, as amended. For a fixed registry, agent and view of the Services, two runs of the
  derivation return cards that agree on everything but the time stamps of the status
  (\<open>lastSeen\<close> and the transition time of the condition), which are the reading of the
  clock at each run: spec and hash are the same. The translation depends on the card's
  spec only.
\<close>

theorem derivation_deterministic_up_to_clock:
  assumes "get_service w' = get_service w"
  shows "(\<exists>crd. GenerateCard lib w g ctx agentRegistry agent = Inr crd
           \<and> GenerateCard lib w' g ctx agentRegistry agent
              = Inr (crd\<lparr>Status := (Status crd)
                      \<lparr>LastSeen := Some (clock w'),
                       card_Conditions :=
                         map (\<lambda>c. c\<lparr>cond_LastTransitionTime := clock w'\<rparr>)
                           (card_Conditions (Status crd))\<rparr>\<rparr>))
       \<and> (Spec c = Spec c' \<longrightarrow> ToJSON lib (Some c) = ToJSON lib (Some c'))"
proof -
  obtain crd where c: "GenerateCard lib w g ctx agentRegistry agent = Inr crd"
    using GenerateCard_Inr by blast
  have e: "extractEndpoints lib w' ctx agent = extractEndpoints lib w ctx agent"
    unfolding extractEndpoints_def findServiceForAgent_def assms ..
  have "GenerateCard lib w' g ctx agentRegistry agent
     = Inr (crd\<lparr>Status := (Status crd)
            \<lparr>LastSeen := Some (clock w'),
             card_Conditions :=
               map (\<lambda>c. c\<lparr>cond_LastTransitionTime := clock w'\<rparr>)
                 (card_Conditions (Status crd))\<rparr>\<rparr>)"
    using c by (auto simp: GenerateCard_def Let_def e)
  with c have 1: "\<exists>crd. GenerateCard lib w g ctx agentRegistry agent = Inr crd
           \<and> GenerateCard lib w' g ctx agentRegistry agent
              = Inr (crd\<lparr>Status := (Status crd)
                      \<lparr>LastSeen := Some (clock w'),
                       card_Conditions :=
                         map (\<lambda>c. c\<lparr>cond_LastTransitionTime := clock w'\<rparr>)
                           (card_Conditions (Status crd))\<rparr>\<rparr>)"
    by (intro exI [of _ crd]) simp
  have 2: "Spec c = Spec c' \<longrightarrow> ToJSON lib (Some c) = ToJSON lib (Some c')"
    by (auto intro: ToJSON_spec_only)
  show ?thesis using 1 2 by (rule conjI)
qed

theorem derivation_deterministic_up_to_clock_witness:
  "get_service (S1_cluster\<lparr>clock := 2000\<rparr>) = get_service S1_cluster
   \<and> LastSeen (Status (projr
        (GenerateCard S_lib (S1_cluster\<lparr>clock := 2000\<rparr>) S_generator Live S1_registry S1_agent)))
      = Some 2000
   \<and> Spec (projr
        (GenerateCard S_lib (S1_cluster\<lparr>clock := 2000\<rparr>) S_generator Live S1_registry S1_agent))
      = Spec (projr (GenerateCard S_lib S1_cluster S_generator Live S1_registry S1_agent))
   \<and> Hash (Status (projr
        (GenerateCard S_lib (S1_cluster\<lparr>clock := 2000\<rparr>) S_generator Live S1_registry S1_agent)))
      = Hash (Status (projr (GenerateCard S_lib S1_cluster S_generator Live S1_registry S1_agent)))
   \<and> Spec (S5_card\<lparr>Status := Status S5_card\<lparr>LastSeen := None\<rparr>\<rparr>) = Spec S5_card
   \<and> ToJSON S_lib (Some (S5_card\<lparr>Status := Status S5_card\<lparr>LastSeen := None\<rparr>\<rparr>))
      = ToJSON S_lib (Some S5_card)"
proof -
  have s: "get_service (S1_cluster\<lparr>clock := 2000\<rparr>) = get_service S1_cluster" by simp
  have q: "Spec (S5_card\<lparr>Status := Status S5_card\<lparr>LastSeen := None\<rparr>\<rparr>) = Spec S5_card" by simp
  note t = derivation_deterministic_up_to_clock [OF s, of S_lib S_generator Live S1_registry S1_agent
      "S5_card\<lparr>Status := Status S5_card\<lparr>LastSeen := None\<rparr>\<rparr>" S5_card]
  from t obtain c where g: "GenerateCard S_lib S1_cluster S_generator Live S1_registry S1_agent = Inr c"
    and g': "GenerateCard S_lib (S1_cluster\<lparr>clock := 2000\<rparr>) S_generator Live S1_registry S1_agent
       = Inr (c\<lparr>Status := (Status c)
                      \<lparr>LastSeen := Some (clock (S1_cluster\<lparr>clock := 2000\<rparr>)),
                       card_Conditions :=
                         map (\<lambda>c. c\<lparr>cond_LastTransitionTime := clock (S1_cluster\<lparr>clock := 2000\<rparr>)\<rparr>)
                           (card_Conditions (Status c))\<rparr>\<rparr>)"
    by blast
  from t q have j: "ToJSON S_lib (Some (S5_card\<lparr>Status := Status S5_card\<lparr>LastSeen := None\<rparr>\<rparr>))
      = ToJSON S_lib (Some S5_card)"
    by blast
  show ?thesis using j by (simp add: g g')
qed

text \<open>
  Two runs on S1 that differ in the clock alone return different cards: the status is not
  the same.
\<close>

theorem derivation_clock_counterexample:
  "get_service (S1_cluster\<lparr>clock := 2000\<rparr>) = get_service S1_cluster
   \<and> GenerateCard S_lib (S1_cluster\<lparr>clock := 2000\<rparr>) S_generator Live S1_registry S1_agent
      \<noteq> GenerateCard S_lib S1_cluster S_generator Live S1_registry S1_agent
   \<and> LastSeen (Status (projr
        (GenerateCard S_lib (S1_cluster\<lparr>clock := 2000\<rparr>) S_generator Live S1_registry S1_agent)))
      = Some 2000
   \<and> LastSeen (Status (projr
        (GenerateCard S_lib S1_cluster S_generator Live S1_registry S1_agent))) = Some 1000"
proof -
  have a: "LastSeen (Status (projr
        (GenerateCard S_lib (S1_cluster\<lparr>clock := 2000\<rparr>) S_generator Live S1_registry S1_agent)))
      = Some 2000"
    by (simp add: GenerateCard_def Let_def)
  have b: "LastSeen (Status (projr
        (GenerateCard S_lib S1_cluster S_generator Live S1_registry S1_agent))) = Some 1000"
    by (simp add: GenerateCard_def Let_def S1_cluster_def)
  from a b have "GenerateCard S_lib (S1_cluster\<lparr>clock := 2000\<rparr>) S_generator Live S1_registry S1_agent
      \<noteq> GenerateCard S_lib S1_cluster S_generator Live S1_registry S1_agent"
    by auto
  with a b show ?thesis by simp
qed

lemma checkEndpoint_True:
  "checkEndpoint lib w c ctx e = Inr True \<longleftrightarrow>
     url_fault lib (URL e) = None
     \<and> (\<exists>code. client_Do w (timeout c) ctx (URL e) = Inr code \<and> 200 \<le> code \<and> code < 500)"
  by (auto simp: checkEndpoint_def split: option.splits sum.splits)

lemma CheckEndpoints_loop_result:
  "CheckEndpoints_loop lib w c ctx endpoints =
     (if \<exists>e\<in>set endpoints. checkEndpoint lib w c ctx e = Inr True then (True, None)
      else (False, Some (Failure ''all endpoints unhealthy'')))"
  by (induction endpoints) (auto split: sum.splits)

text \<open>
  C8. For a non-empty endpoint list the prober returns healthy exactly when some endpoint
  of the list answers the HEAD request, within the timeout of the probe, with a status
  code from 200 to 499: an endpoint whose probe errors or whose code is outside that range
  is passed over and the later endpoints are still tried. Otherwise, when every endpoint
  fails, it returns unhealthy with the error \<open>all endpoints unhealthy\<close>.
\<close>

theorem CheckEndpoints_healthy_iff:
  assumes "endpoints \<noteq> []"
  shows "CheckEndpoints lib w c ctx endpoints =
     (if \<exists>e\<in>set endpoints. url_fault lib (URL e) = None
           \<and> (\<exists>code. client_Do w (timeout c) ctx (URL e) = Inr code \<and> 200 \<le> code \<and> code < 500)
      then (True, None)
      else (False, Some (Failure ''all endpoints unhealthy'')))"
  using assms
  by (simp add: CheckEndpoints_def CheckEndpoints_loop_result checkEndpoint_True)

theorem CheckEndpoints_healthy_iff_witness:
  "S8_endpoints \<noteq> []
   \<and> client_Do S8_cluster 5 Live ''http://invalid-host:9999'' = Inl (Failure ''no such host'')
   \<and> client_Do S8_cluster 5 Live ''http://a1.n.svc.cluster.local:8080'' = Inr 200
   \<and> CheckEndpoints S_lib S8_cluster \<lparr>timeout = 5\<rparr> Live S8_endpoints = (True, None)
   \<and> CheckEndpoints S_lib S1_cluster \<lparr>timeout = 5\<rparr> Live S8_endpoints
       = (False, Some (Failure ''all endpoints unhealthy''))"
proof -
  have n: "S8_endpoints \<noteq> []" by (simp add: S8_endpoints_def)
  have a: "client_Do S8_cluster 5 Live ''http://invalid-host:9999'' = Inl (Failure ''no such host'')"
    by (simp add: client_Do_def S8_cluster_def)
  have b: "client_Do S8_cluster 5 Live ''http://a1.n.svc.cluster.local:8080'' = Inr 200"
    by (simp add: client_Do_def S8_cluster_def)
  have c: "client_Do S1_cluster 5 Live u = Inl (Failure ''connection refused'')" for u
    by (simp add: client_Do_def S1_cluster_def)
  have "CheckEndpoints S_lib S8_cluster \<lparr>timeout = 5\<rparr> Live S8_endpoints = (True, None)"
    using CheckEndpoints_healthy_iff [OF n, of S_lib S8_cluster "\<lparr>timeout = 5\<rparr>" Live] a b
    by (simp add: S8_endpoints_def S_lib_def)
  moreover have "CheckEndpoints S_lib S1_cluster \<lparr>timeout = 5\<rparr> Live S8_endpoints
       = (False, Some (Failure ''all endpoints unhealthy''))"
    using CheckEndpoints_healthy_iff [OF n, of S_lib S1_cluster "\<lparr>timeout = 5\<rparr>" Live] c
    by (simp add: S8_endpoints_def S_lib_def)
  ultimately show ?thesis using n a b by simp
qed

lemma CheckEndpoints_Canceled: "fst (CheckEndpoints lib w c Canceled endpoints) = False"
  by (simp add: CheckEndpoints_def CheckEndpoints_loop_result checkEndpoint_True client_Do_def)

lemma GenerateCard_key:
  "GenerateCard lib w g ctx agentRegistry agent = Inr crd \<Longrightarrow>
   card_Namespace crd = agent_Namespace agent \<and> card_Name crd = agent_Name agent
   \<and> EndpointHealthy (Status crd) = None"
  by (auto simp: GenerateCard_def Let_def split: option.splits sum.splits)

lemma applyAgentCard_effect:
  assumes "applyAgentCard lib w r ctx agentRegistry crd = (e, w')"
  shows "\<exists>crd'. w' = w\<lparr>patches := patches w @ [crd'],
                        cards := (if e = None
                                  then (cards w)((card_Namespace crd, card_Name crd) \<mapsto>
                                         apply_merge w (cards w (card_Namespace crd, card_Name crd)) crd')
                                  else cards w)\<rparr>
           \<and> (e = None) = (patch_fault w crd' = None)
           \<and> Spec crd' = Spec crd
           \<and> EndpointHealthy (Status crd') =
               (case HealthChecker r of
                  None \<Rightarrow> EndpointHealthy (Status crd)
                | Some checker \<Rightarrow>
                    if Endpoints (Spec crd) = [] then EndpointHealthy (Status crd)
                    else Some (fst (CheckEndpoints lib w checker ctx (Endpoints (Spec crd)))))"
  using assms
  by (auto simp: applyAgentCard_def Patch_apply_def Let_def split: option.splits if_splits)

lemma reconcileAgentCard_cases:
  assumes g: "GenerateCard lib w \<lparr>gen_Translator = Some NewTranslator\<rparr> ctx agentRegistry agent = Inr crd"
  shows "reconcileAgentCard lib w r ctx agentRegistry agent =
     (case get_card w (agent_Namespace agent, agent_Name agent) of
        Inr existing \<Rightarrow>
          if Hash (Status existing) = Hash (Status crd) then (None, w)
          else applyAgentCard lib w r ctx agentRegistry crd
      | Inl err \<Rightarrow>
          if IsNotFound err then applyAgentCard lib w r ctx agentRegistry crd
          else (Some (Wrap ''failed to get existing agent card'' err), w))"
  using GenerateCard_key [OF g] by (simp add: reconcileAgentCard_def g)



text \<open>
  C7. When the card read at the agent's namespace and name has the hash of the freshly
  derived card, reconciling the agent returns without error and leaves the cluster as it
  was: no apply is issued and the existing card stays in place.
\<close>

theorem dedup_fast_path:
  assumes "GenerateCard lib w \<lparr>gen_Translator = Some NewTranslator\<rparr> ctx agentRegistry agent = Inr crd"
    and "get_card w (agent_Namespace agent, agent_Name agent) = Inr existing"
    and "Hash (Status existing) = Hash (Status crd)"
  shows "reconcileAgentCard lib w r ctx agentRegistry agent = (None, w)
       \<and> patches (snd (reconcileAgentCard lib w r ctx agentRegistry agent)) = patches w
       \<and> cards (snd (reconcileAgentCard lib w r ctx agentRegistry agent))
            (agent_Namespace agent, agent_Name agent) = Some existing"
proof -
  have "reconcileAgentCard lib w r ctx agentRegistry agent = (None, w)"
    using assms(2,3) by (simp add: reconcileAgentCard_cases [OF assms(1)])
  moreover have "cards w (agent_Namespace agent, agent_Name agent) = Some existing"
    using assms(2) by (auto simp: get_card_def split: option.splits)
  ultimately show ?thesis by simp
qed

theorem dedup_fast_path_witness:
  "GenerateCard S_lib S5_cluster \<lparr>gen_Translator = Some NewTranslator\<rparr> Live S1_registry S1_agent
     = Inr (projr (GenerateCard S_lib S5_cluster \<lparr>gen_Translator = Some NewTranslator\<rparr> Live
              S1_registry S1_agent))
   \<and> get_card S5_cluster (agent_Namespace S1_agent, agent_Name S1_agent) = Inr S5_card
   \<and> Hash (Status S5_card)
      = Hash (Status (projr (GenerateCard S_lib S5_cluster \<lparr>gen_Translator = Some NewTranslator\<rparr>
                              Live S1_registry S1_agent)))
   \<and> reconcileAgentCard S_lib S5_cluster S_controller Live S1_registry S1_agent = (None, S5_cluster)
   \<and> patches (snd (reconcileAgentCard S_lib S5_cluster S_controller Live S1_registry S1_agent))
      = [S5_card]"
proof -
  obtain crd where g: "GenerateCard S_lib S5_cluster \<lparr>gen_Translator = Some NewTranslator\<rparr> Live
      S1_registry S1_agent = Inr crd"
    using GenerateCard_Inr by blast
  have e: "get_card S5_cluster (agent_Namespace S1_agent, agent_Name S1_agent) = Inr S5_card"
    by (simp add: get_card_def S5_cluster_def S1_cluster_def S1_agent_def)
  have "Hash (Status crd) = ''6131''"
    using g by (auto simp: model_defs scenario_defs constant_defs)
  then have h: "Hash (Status S5_card) = Hash (Status crd)"
    by (simp add: S5_card_def)
  have p: "patches S5_cluster = [S5_card]"
    by (simp add: S5_cluster_def)
  show ?thesis
    using dedup_fast_path [OF g e h, of S_controller] e h p by (simp add: g)
qed


















text \<open>
  C3, as amended. Where reconciling an agent applies a card, a configured health checker
  and a non-empty endpoint list make the recorded outcome the boolean of the prober, never
  unknown; under a cancelled context every probe errors and the recorded outcome is
  \<open>false\<close>, unhealthy. Unknown is recorded exactly where no probe runs: without a health
  checker or with an empty endpoint list.
\<close>

theorem endpoint_health_recorded:
  assumes "reconcileAgentCard lib w r ctx agentRegistry agent = (e, w')"
    and "patches w' \<noteq> patches w"
  shows "\<exists>crd. patches w' = patches w @ [crd]
     \<and> (HealthChecker r = Some checker \<and> Endpoints (Spec crd) \<noteq> [] \<longrightarrow>
          EndpointHealthy (Status crd)
            = Some (fst (CheckEndpoints lib w checker ctx (Endpoints (Spec crd))))
          \<and> (ctx = Canceled \<longrightarrow> EndpointHealthy (Status crd) = Some False))
     \<and> (HealthChecker r = None \<or> Endpoints (Spec crd) = [] \<longrightarrow>
          EndpointHealthy (Status crd) = None)"
proof -
  obtain crd where g: "GenerateCard lib w \<lparr>gen_Translator = Some NewTranslator\<rparr> ctx agentRegistry agent = Inr crd"
    using GenerateCard_Inr by blast
  note k = GenerateCard_key [OF g]
  have "reconcileAgentCard lib w r ctx agentRegistry agent
          = applyAgentCard lib w r ctx agentRegistry crd"
    using assms unfolding reconcileAgentCard_cases [OF g]
    by (auto split: sum.splits if_splits)
  with assms have a: "applyAgentCard lib w r ctx agentRegistry crd = (e, w')" by simp
  from applyAgentCard_effect [OF a] obtain crd' where
    p: "patches w' = patches w @ [crd']" and s: "Spec crd' = Spec crd"
    and h: "EndpointHealthy (Status crd') =
               (case HealthChecker r of
                  None \<Rightarrow> EndpointHealthy (Status crd)
                | Some checker \<Rightarrow>
                    if Endpoints (Spec crd) = [] then EndpointHealthy (Status crd)
                    else Some (fst (CheckEndpoints lib w checker ctx (Endpoints (Spec crd)))))"
    by (auto split: if_splits)
  have 1: "HealthChecker r = Some checker \<and> Endpoints (Spec crd') \<noteq> [] \<longrightarrow>
          EndpointHealthy (Status crd')
            = Some (fst (CheckEndpoints lib w checker ctx (Endpoints (Spec crd'))))
          \<and> (ctx = Canceled \<longrightarrow> EndpointHealthy (Status crd') = Some False)"
    using h s CheckEndpoints_Canceled [of lib w checker "Endpoints (Spec crd)"] by auto
  have 2: "HealthChecker r = None \<or> Endpoints (Spec crd') = [] \<longrightarrow>
          EndpointHealthy (Status crd') = None"
    using h s k by (auto split: option.splits)
  show ?thesis using p 1 2 by blast
qed

theorem endpoint_health_recorded_witness:
  "patches (snd (reconcileAgentCard S_lib S3_cancelled_cluster S_controller Canceled S1_registry S3_agent))
     \<noteq> patches S3_cancelled_cluster
   \<and> HealthChecker S_controller = Some \<lparr>timeout = 5000000000\<rparr>
   \<and> map (Endpoints \<circ> Spec)
       (patches (snd (reconcileAgentCard S_lib S3_cancelled_cluster S_controller Canceled S1_registry S3_agent)))
      = [[\<lparr>URL = ''https://x.example:9000'', Protocol = ''http'', Port = 0\<rparr>]]
   \<and> map (EndpointHealthy \<circ> Status)
       (patches (snd (reconcileAgentCard S_lib S3_cancelled_cluster S_controller Canceled S1_registry S3_agent)))
      = [Some False]"
proof -
  obtain e w' where r: "reconcileAgentCard S_lib S3_cancelled_cluster S_controller Canceled S1_registry S3_agent
      = (e, w')"
    by (cases "reconcileAgentCard S_lib S3_cancelled_cluster S_controller Canceled S1_registry S3_agent")
  have p0: "patches S3_cancelled_cluster = []"
    by (simp add: scenario_defs)
  have ep: "map (Endpoints \<circ> Spec) (patches w')
      = [[\<lparr>URL = ''https://x.example:9000'', Protocol = ''http'', Port = 0\<rparr>]]"
    using r by (auto simp: model_defs scenario_defs constant_defs)
  then have n: "patches w' \<noteq> patches S3_cancelled_cluster"
    using p0 by auto
  have hc: "HealthChecker S_controller = Some \<lparr>timeout = 5000000000\<rparr>"
    by (simp add: S_controller_def)
  from endpoint_health_recorded [OF r n, of "\<lparr>timeout = 5000000000\<rparr>"] obtain crd where
    p: "patches w' = patches S3_cancelled_cluster @ [crd]"
    and h: "HealthChecker S_controller = Some \<lparr>timeout = 5000000000\<rparr> \<and> Endpoints (Spec crd) \<noteq> [] \<longrightarrow>
          (Canceled = Canceled \<longrightarrow> EndpointHealthy (Status crd) = Some False)"
    by blast
  have "Endpoints (Spec crd) \<noteq> []"
    using ep p p0 by simp
  with h hc have "EndpointHealthy (Status crd) = Some False" by simp
  then have "map (EndpointHealthy \<circ> Status) (patches w') = [Some False]"
    using p p0 by simp
  with n hc ep show ?thesis by (simp add: r)
qed

text \<open>
  With the context cancelled and one endpoint, the card that the controller hands to the
  apply records \<open>false\<close>, not unknown.
\<close>

theorem cancelled_probe_counterexample:
  "map (Endpoints \<circ> Spec)
       (patches (snd (reconcileAgentCard S_lib S3_cancelled_cluster S_controller Canceled S1_registry S3_agent)))
      = [[\<lparr>URL = ''https://x.example:9000'', Protocol = ''http'', Port = 0\<rparr>]]
   \<and> map (EndpointHealthy \<circ> Status)
       (patches (snd (reconcileAgentCard S_lib S3_cancelled_cluster S_controller Canceled S1_registry S3_agent)))
      = [Some False]"
  by (simp add: model_defs scenario_defs constant_defs)

text \<open>
  C2. The status writes of two runs. For a registry with discovery off, the one write has
  phase \<open>NotStarted\<close> and carries \<open>lastSync\<close>; on S1 the \<open>Discovering\<close> pre-mark and the
  \<open>Ready\<close> write both carry \<open>lastSync\<close>. \<open>updateStatus\<close> sets the time stamp before it looks
  at the phase, so the writes that the claim excludes set it too.
\<close>

theorem status_write_sets_lastSync:
  "map (Phase \<circ> reg_Status)
      (status_updates (snd (snd (Reconcile S_lib S0_cluster S_controller Live (''n'', ''r1'')))))
     = [''NotStarted'']
   \<and> map (LastSync \<circ> reg_Status)
      (status_updates (snd (snd (Reconcile S_lib S0_cluster S_controller Live (''n'', ''r1'')))))
     = [Some 1000]
   \<and> map (Phase \<circ> reg_Status)
      (status_updates (snd (snd (Reconcile S_lib S1_cluster S_controller Live (''n'', ''r1'')))))
     = [''Discovering'', ''Ready'']
   \<and> map (LastSync \<circ> reg_Status)
      (status_updates (snd (snd (Reconcile S_lib S1_cluster S_controller Live (''n'', ''r1'')))))
     = [Some 1000, Some 1000]"
  by (simp add: model_defs scenario_defs constant_defs)

end
